theory Spec2Isabelle
  imports Main
begin

section \<open>Python values and string operations used by the poster\<close>

text \<open>
  The values that flow through \<^verbatim>\<open>reddit_autopost.py\<close> come from
  \<^verbatim>\<open>response.json()\<close> and \<^verbatim>\<open>request.get_json()\<close>, so
      they are JSON values.
  Python's \<^verbatim>\<open>None\<close> is \<open>JNull\<close>, a
      \<^verbatim>\<open>dict\<close> is an association list in
  insertion order. Numbers are integers here (no claim depends on a float). A Python
  \<^verbatim>\<open>str\<close> is a \<open>string\<close>; the tags and extensions the code
      searches for are ASCII.
\<close>

datatype json =
    JNull
  | JBool bool
  | JNum int
  | JStr string
  | JArr "json list"
  | JObj "(string \<times> json) list"

text \<open>Exceptions the code can meet; all of them are subclasses of
    \<^verbatim>\<open>Exception\<close>.\<close>

datatype py_exn =
    AttributeError
  | TypeError
  | KeyError
  | ValueError
  | UnicodeEncodeError
  | JSONDecodeError
  | BadRequest

text \<open>Truth value testing, as \<^verbatim>\<open>not x\<close>, \<^verbatim>\<open>if
    x\<close> and \<^verbatim>\<open>x or y\<close> apply it.\<close>

fun truthy :: "json \<Rightarrow> bool" where
  "truthy JNull = False"
| "truthy (JBool b) = b"
| "truthy (JNum n) = (n \<noteq> 0)"
| "truthy (JStr s) = (s \<noteq> [])"
| "truthy (JArr xs) = (xs \<noteq> [])"
| "truthy (JObj kvs) = (kvs \<noteq> [])"

text \<open>\<^verbatim>\<open>d.get(key, default)\<close>: only a dict has the method.\<close>

fun py_get :: "json \<Rightarrow> string \<Rightarrow> json \<Rightarrow> py_exn + json" where
  "py_get (JObj kvs) k d = Inr (case map_of kvs k of None \<Rightarrow> d | Some v \<Rightarrow>
      v)"
| "py_get _ k d = Inl AttributeError"

text \<open>\<^verbatim>\<open>s.startswith(t)\<close> and
    \<^verbatim>\<open>s.endswith(t)\<close>.\<close>

definition py_startswith :: "string \<Rightarrow> string \<Rightarrow> bool" where
  "py_startswith s t = (take (length t) s = t)"

definition py_endswith :: "string \<Rightarrow> string \<Rightarrow> bool" where
  "py_endswith s t = (length t \<le> length s \<and> drop (length s - length t) s = t)"

text \<open>\<^verbatim>\<open>s.find(t)\<close>: the lowest index where \<open>t\<close> starts
    in \<open>s\<close>, or -1.\<close>

fun py_find :: "string \<Rightarrow> string \<Rightarrow> int" where
  "py_find [] t = (if t = [] then 0 else -1)"
| "py_find (c # cs) t =
     (if py_startswith (c # cs) t then 0
      else (let r = py_find cs t in if r < 0 then -1 else r + 1))"

text \<open>\<^verbatim>\<open>t in s\<close>: substring test.\<close>

fun py_in :: "string \<Rightarrow> string \<Rightarrow> bool" where
  "py_in t [] = (t = [])"
| "py_in t (c # cs) = (py_startswith (c # cs) t \<or> py_in t cs)"

text \<open>
  \<^verbatim>\<open>s[start:end]\<close>: a negative index counts from the end, every index is
      clamped to
  the string, and an empty range gives the empty string.
\<close>

definition py_index :: "nat \<Rightarrow> int \<Rightarrow> nat" where
  "py_index n i = (if i < 0 then nat (max 0 (int n + i)) else min n (nat i))"

definition py_slice :: "string \<Rightarrow> int \<Rightarrow> int \<Rightarrow> string" where
  "py_slice s start end' =
     (let a = py_index (length s) start; b = py_index (length s) end'
      in take (b - a) (drop a s))"

text \<open>\<^verbatim>\<open>s.lower()\<close> and \<^verbatim>\<open>s.upper()\<close> on ASCII
    letters; other characters are kept.\<close>

definition lower_char :: "char \<Rightarrow> char" where
  "lower_char c =
     (case map_of (zip ''ABCDEFGHIJKLMNOPQRSTUVWXYZ'' ''abcdefghijklmnopqrstuvwxyz'') c of
        None \<Rightarrow> c | Some l \<Rightarrow> l)"

definition upper_char :: "char \<Rightarrow> char" where
  "upper_char c =
     (case map_of (zip ''abcdefghijklmnopqrstuvwxyz'' ''ABCDEFGHIJKLMNOPQRSTUVWXYZ'') c of
        None \<Rightarrow> c | Some u \<Rightarrow> u)"

definition py_lower :: "string \<Rightarrow> string" where
  "py_lower s = map lower_char s"

definition py_upper :: "string \<Rightarrow> string" where
  "py_upper s = map upper_char s"

text \<open>\<^verbatim>\<open>s.capitalize()\<close>: first character upper case, the rest lower
    case.\<close>

fun py_capitalize :: "string \<Rightarrow> string" where
  "py_capitalize [] = []"
| "py_capitalize (c # cs) = upper_char c # py_lower cs"

text \<open>\<^verbatim>\<open>s.split('/')[-1]\<close>: the segment after the last slash (all of
    \<open>s\<close> if none).\<close>

fun last_segment :: "string \<Rightarrow> string" where
  "last_segment [] = []"
| "last_segment (c # cs) =
     (if CHR ''/'' \<in> set cs then last_segment cs
      else if c = CHR ''/'' then cs else c # cs)"

section \<open>The location step of the media upload\<close>

text \<open>
  Lines 319-329 of \<^verbatim>\<open>_upload_media\<close>: the body of the upload response is
      searched for
  the opening tag; the location is the slice from ten characters after it to the index
  that \<^verbatim>\<open>find\<close> gives for the closing tag. \<open>JNull\<close> is the
      \<^verbatim>\<open>None\<close> of the failure branch.
\<close>

definition extract_location :: "string \<Rightarrow> json" where
  "extract_location response_text =
     (if py_in ''<Location>'' response_text then
        (let start = py_find response_text ''<Location>'' + 10;
             end' = py_find response_text ''</Location>'';
             location = py_slice response_text start end'
         in JStr location)
      else JNull)"

text \<open>
  What an occurrence means, independently of the search functions: \<open>t\<close> occurs in
      \<open>s\<close> at
  index \<open>i\<close>, and \<open>i\<close> is the first such index.
\<close>

definition occurs_at :: "string \<Rightarrow> string \<Rightarrow> nat \<Rightarrow> bool" where
  "occurs_at t s i = (i + length t \<le> length s \<and> take (length t) (drop i s) = t)"

definition first_at :: "string \<Rightarrow> string \<Rightarrow> nat \<Rightarrow> bool" where
  "first_at t s i = (occurs_at t s i \<and> list_all (\<lambda>k. \<not> occurs_at t s k)
      [0..<i])"

definition occurs :: "string \<Rightarrow> string \<Rightarrow> bool" where
  "occurs t s = list_ex (occurs_at t s) [0..<Suc (length s)]"

section \<open>The remote system and the poster\<close>

text \<open>
  An HTTP response as the code reads it: \<^verbatim>\<open>status_code\<close>, the body
      (\<^verbatim>\<open>text\<close> and
  \<^verbatim>\<open>content\<close>) and what \<^verbatim>\<open>response.json()\<close> gives,
      \<open>None\<close> when it raises.
  The JSON parser belongs to the \<^verbatim>\<open>requests\<close> library, so its result is
      part of the
  response rather than computed from the body.
\<close>

record response =
  status_code :: int
  resp_body :: string
  body_json :: "json option"

text \<open>
  The \<^verbatim>\<open>Authorization\<close> header: \<^verbatim>\<open>Basic\<close> carries
      the string whose base64 encoding
  is sent, \<^verbatim>\<open>Token\<close> the capitalised token type and the access token that
      the f-string
  joins with a space. \<open>Headers\<close> holds Authorization, User-Agent and Content-Type.
\<close>

datatype authorization = Basic string | Token string json

datatype headers = Headers authorization string string

text \<open>The \<^verbatim>\<open>files\<close> argument of the upload: filename, content and
    MIME type.\<close>

datatype file_part = File_part string string string

text \<open>
  The three shapes of call the code makes: \<^verbatim>\<open>requests.post(url, headers, data,
      timeout)\<close>,
  \<^verbatim>\<open>requests.get(url, timeout)\<close> and the upload
  \<^verbatim>\<open>requests.post(f"https:{action}", data, files, timeout)\<close>, which carries
      the lease's
  \<^verbatim>\<open>action\<close> value.
\<close>

datatype request =
    Post_form string headers "(string \<times> json) list" nat
  | Get_url string nat
  | Post_files json "(json \<times> json) list" file_part nat

datatype outcome = Raises | Responds response

text \<open>
  What has happened so far: calls of \<^verbatim>\<open>authenticate\<close> and requests sent,
      oldest first.
  The remote system answers a request as a function of this history and the request,
  or the call raises (connection error, timeout).
\<close>

datatype event = Authenticate_called | Sent request

record world =
  network :: "event list \<Rightarrow> request \<Rightarrow> outcome"
  guess_type :: "string \<Rightarrow> string option"

definition send :: "world \<Rightarrow> request \<Rightarrow> event list \<Rightarrow> outcome
    \<times> event list" where
  "send w r tr = (network w tr r, tr @ [Sent r])"

record poster =
  client_id :: string
  client_secret :: string
  username :: string
  password :: string
  user_agent :: string
  access_token :: json
  token_type :: json

definition token_url :: string where
  "token_url = ''https://www.reddit.com/api/v1/access_token''"

definition api_base :: string where
  "api_base = ''https://oauth.reddit.com''"

definition form_content_type :: string where
  "form_content_type = ''application/x-www-form-urlencoded''"

text \<open>\<^verbatim>\<open>RedditAutoPoster.__init__\<close>; \<open>None\<close> is the
    absent \<^verbatim>\<open>user_agent\<close> argument.\<close>

definition new_poster :: "string \<Rightarrow> string \<Rightarrow> string \<Rightarrow> string
    \<Rightarrow> string option \<Rightarrow> poster" where
  "new_poster cid secret user pass agent =
     \<lparr> client_id = cid, client_secret = secret, username = user, password = pass,
       user_agent = (case agent of
                       None \<Rightarrow> ''LivePosting/1.0 (by /u/'' @ user @ '')''
                     | Some a \<Rightarrow> a),
       access_token = JNull, token_type = JStr ''bearer'' \<rparr>"

text \<open>\<^verbatim>\<open>s.encode('ascii')\<close> raises on a character outside
    ASCII.\<close>

definition is_ascii :: "string \<Rightarrow> bool" where
  "is_ascii s = list_all (\<lambda>c. \<not> digit7 c) s"

text \<open>\<^verbatim>\<open>d.get(key, default)\<close> on a dict.\<close>

definition dict_get :: "(string \<times> json) list \<Rightarrow> string \<Rightarrow> json
    \<Rightarrow> json" where
  "dict_get kvs k d = (case map_of kvs k of None \<Rightarrow> d | Some v \<Rightarrow> v)"

text \<open>
  \<^verbatim>\<open>authenticate\<close> (lines 59-105). The request of lines 72-89 first; then
      the
  operation. Every exception inside the \<^verbatim>\<open>try\<close> ends in
      \<^verbatim>\<open>return False\<close>: the
  encoding of the credentials, the request, \<^verbatim>\<open>response.json()\<close> and
  \<^verbatim>\<open>token_data.get\<close> on a value that is not a dict (which raises before the
      first
  assignment).
\<close>

definition token_request :: "poster \<Rightarrow> request" where
  "token_request p =
     Post_form token_url
       (Headers (Basic (client_id p @ '':'' @ client_secret p)) (user_agent p) form_content_type)
       [(''grant_type'', JStr ''password''),
        (''username'', JStr (username p)),
        (''password'', JStr (password p))] 30"

definition authenticate :: "world \<Rightarrow> poster \<Rightarrow> event list \<Rightarrow> bool
    \<times> poster \<times> event list" where
  "authenticate w p tr0 =
     (let tr = tr0 @ [Authenticate_called];
          auth_string = client_id p @ '':'' @ client_secret p
      in if \<not> is_ascii auth_string then (False, p, tr)
         else
           (let (out, tr') = send w (token_request p) tr
            in case out of
                 Raises \<Rightarrow> (False, p, tr')
               | Responds response \<Rightarrow>
                   if status_code response = 200 then
                     (case body_json response of
                        None \<Rightarrow> (False, p, tr')
                      | Some (JObj token_data) \<Rightarrow>
                          (True,
                           p\<lparr>access_token := dict_get token_data ''access_token'' JNull,
                             token_type := dict_get token_data ''token_type'' (JStr
                                 ''bearer'')\<rparr>,
                           tr')
                      | Some _ \<Rightarrow> (False, p, tr'))
                   else (False, p, tr')))"

text \<open>
  \<^verbatim>\<open>_get_headers\<close> (lines 107-121): \<^verbatim>\<open>ValueError\<close>
      without a truthy token;
  \<^verbatim>\<open>capitalize\<close> exists on a \<^verbatim>\<open>str\<close> only.
\<close>

definition get_headers :: "poster \<Rightarrow> py_exn + headers" where
  "get_headers p =
     (if \<not> truthy (access_token p) then Inl ValueError
      else case token_type p of
             JStr tt \<Rightarrow>
               Inr (Headers (Token (py_capitalize tt) (access_token p)) (user_agent p)
                      form_content_type)
           | _ \<Rightarrow> Inl AttributeError)"

text \<open>
  The reading of the submission response, the same in the three operations (lines
  165-180, 233-247, 389-403): the parsed body is returned unless the status is not 200,
  the body is not JSON, a \<^verbatim>\<open>.get\<close> meets a value that is not a dict, or
  \<^verbatim>\<open>json.errors\<close> is truthy.
\<close>

definition read_submit_response :: "response \<Rightarrow> json" where
  "read_submit_response response =
     (if status_code response = 200 then
        (case body_json response of
           Some (JObj result) \<Rightarrow>
             (case dict_get result ''json'' (JObj []) of
                JObj envelope \<Rightarrow>
                  if truthy (dict_get envelope ''errors'' JNull) then JNull
                  else (case dict_get envelope ''data'' (JObj []) of
                          JObj post_data \<Rightarrow> JObj result
                        | _ \<Rightarrow> JNull)
              | _ \<Rightarrow> JNull)
         | _ \<Rightarrow> JNull)
      else JNull)"

text \<open>The request to the submission endpoint and its reading, inside the
    \<^verbatim>\<open>try\<close>.\<close>

definition submit_request :: "headers \<Rightarrow> (string \<times> json) list \<Rightarrow>
    request" where
  "submit_request hdrs data = Post_form (api_base @ ''/api/submit'') hdrs data 30"

definition submit :: "world \<Rightarrow> poster \<Rightarrow> event list \<Rightarrow> (string
    \<times> json) list \<Rightarrow> json \<times> poster \<times> event list" where
  "submit w p tr data =
     (case get_headers p of
        Inl e \<Rightarrow> (JNull, p, tr)
      | Inr hdrs \<Rightarrow>
          (let (out, tr') = send w (submit_request hdrs data) tr
           in case out of
                Raises \<Rightarrow> (JNull, p, tr')
              | Responds response \<Rightarrow> (read_submit_response response, p, tr')))"

definition flair_item :: "json \<Rightarrow> (string \<times> json) list" where
  "flair_item flair_id = (if truthy flair_id then [(''flair_id'', flair_id)] else [])"

text \<open>\<^verbatim>\<open>post_text\<close> (lines 123-184).\<close>

definition text_data :: "json \<Rightarrow> json \<Rightarrow> json \<Rightarrow> json
    \<Rightarrow> (string \<times> json) list" where
  "text_data subreddit title body_text flair_id =
     [(''api_type'', JStr ''json''), (''sr'', subreddit), (''title'', title),
      (''text'', body_text), (''kind'', JStr ''self'')] @ flair_item flair_id"

definition post_text :: "world \<Rightarrow> poster \<Rightarrow> event list \<Rightarrow> json
    \<Rightarrow> json \<Rightarrow> json \<Rightarrow> json \<Rightarrow> json \<times> poster
    \<times> event list" where
  "post_text w p tr subreddit title body_text flair_id =
     (if \<not> truthy (access_token p) then
        (case authenticate w p tr of
           (ok, p1, tr1) \<Rightarrow>
             if \<not> ok then (JNull, p1, tr1)
             else submit w p1 tr1 (text_data subreddit title body_text flair_id))
      else submit w p tr (text_data subreddit title body_text flair_id))"

text \<open>\<^verbatim>\<open>post_link\<close> (lines 186-251).\<close>

definition link_data :: "json \<Rightarrow> json \<Rightarrow> json \<Rightarrow> json
    \<Rightarrow> json \<Rightarrow> (string \<times> json) list" where
  "link_data subreddit title url body_text flair_id =
     [(''api_type'', JStr ''json''), (''sr'', subreddit), (''title'', title),
      (''url'', url), (''kind'', JStr ''link'')]
     @ (if truthy body_text then [(''text'', body_text)] else [])
     @ flair_item flair_id"

definition post_link :: "world \<Rightarrow> poster \<Rightarrow> event list \<Rightarrow> json
    \<Rightarrow> json \<Rightarrow> json \<Rightarrow> json \<Rightarrow> json \<Rightarrow> json
    \<times> poster \<times> event list" where
  "post_link w p tr subreddit title url body_text flair_id =
     (if \<not> truthy (access_token p) then
        (case authenticate w p tr of
           (ok, p1, tr1) \<Rightarrow>
             if \<not> ok then (JNull, p1, tr1)
             else submit w p1 tr1 (link_data subreddit title url body_text flair_id))
      else submit w p tr (link_data subreddit title url body_text flair_id))"

section \<open>The media upload\<close>

text \<open>
  Step 1 of \<^verbatim>\<open>_upload_media\<close> (lines 265-268): the file name is the segment
      after the
  last slash, \<^verbatim>\<open>media.jpg\<close> when that is empty; the MIME type comes from
  \<^verbatim>\<open>mimetypes.guess_type\<close>, with the fallback of line 268.
\<close>

definition media_filename :: "string \<Rightarrow> string" where
  "media_filename media_url =
     (if last_segment media_url \<noteq> [] then last_segment media_url else ''media.jpg'')"

definition media_mime_type :: "world \<Rightarrow> string \<Rightarrow> string" where
  "media_mime_type w filename =
     (let fallback = (if \<not> py_endswith filename ''.mp4'' then ''image/jpeg'' else
         ''video/mp4'')
      in case guess_type w filename of
           None \<Rightarrow> fallback
         | Some m \<Rightarrow> if m = [] then fallback else m)"

text \<open>
  Lines 286-289: \<^verbatim>\<open>action\<close> and \<^verbatim>\<open>fields\<close> of the
      lease response. \<^verbatim>\<open>response.json()\<close>
  may raise, and \<^verbatim>\<open>.get\<close> raises on a value that is not a dict.
\<close>

definition lease_args :: "response \<Rightarrow> py_exn + json \<times> json" where
  "lease_args response =
     (case body_json response of
        None \<Rightarrow> Inl JSONDecodeError
      | Some (JObj lease_result) \<Rightarrow>
          (case dict_get lease_result ''args'' (JObj []) of
             JObj args \<Rightarrow>
               Inr (dict_get args ''action'' JNull, dict_get args ''fields'' (JArr []))
           | _ \<Rightarrow> Inl AttributeError)
      | Some _ \<Rightarrow> Inl AttributeError)"

text \<open>
  The loop of lines 304-306. Iterating a list gives its elements, a dict its keys, a
  string its characters; anything else is not iterable. \<^verbatim>\<open>field['name']\<close>
      needs a dict
  with that key, and a dict key must be hashable. Python compares \<^verbatim>\<open>True\<close>
      and
  \<^verbatim>\<open>1\<close> equal as keys; a key that is set again keeps its place.
\<close>

definition iterate :: "json \<Rightarrow> py_exn + json list" where
  "iterate v =
     (case v of
        JArr xs \<Rightarrow> Inr xs
      | JObj kvs \<Rightarrow> Inr (map (\<lambda>kv. JStr (fst kv)) kvs)
      | JStr s \<Rightarrow> Inr (map (\<lambda>c. JStr [c]) s)
      | _ \<Rightarrow> Inl TypeError)"

fun hashable :: "json \<Rightarrow> bool" where
  "hashable (JArr xs) = False"
| "hashable (JObj kvs) = False"
| "hashable _ = True"

fun key_norm :: "json \<Rightarrow> json" where
  "key_norm (JBool b) = JNum (if b then 1 else 0)"
| "key_norm k = k"

fun dict_set :: "(json \<times> json) list \<Rightarrow> json \<Rightarrow> json \<Rightarrow>
    (json \<times> json) list" where
  "dict_set [] k v = [(k, v)]"
| "dict_set ((k', v') # kvs) k v =
     (if key_norm k' = key_norm k then (k', v) # kvs else (k', v') # dict_set kvs k v)"

definition field_item :: "json \<Rightarrow> py_exn + json \<times> json" where
  "field_item field =
     (case field of
        JObj kvs \<Rightarrow>
          (case map_of kvs ''value'' of
             None \<Rightarrow> Inl KeyError
           | Some v \<Rightarrow>
               (case map_of kvs ''name'' of
                  None \<Rightarrow> Inl KeyError
                | Some n \<Rightarrow> if hashable n then Inr (n, v) else Inl TypeError))
      | _ \<Rightarrow> Inl TypeError)"

fun fill_upload_data :: "json list \<Rightarrow> (json \<times> json) list \<Rightarrow> py_exn +
    (json \<times> json) list" where
  "fill_upload_data [] upload_data = Inr upload_data"
| "fill_upload_data (field # rest) upload_data =
     (case field_item field of
        Inl e \<Rightarrow> Inl e
      | Inr (n, v) \<Rightarrow> fill_upload_data rest (dict_set upload_data n v))"

definition build_upload_data :: "json \<Rightarrow> py_exn + (json \<times> json) list" where
  "build_upload_data lease_fields =
     (case iterate lease_fields of
        Inl e \<Rightarrow> Inl e
      | Inr items \<Rightarrow> fill_upload_data items [])"

text \<open>Step 3 and the location step (lines 302-329), given the downloaded content.\<close>

definition upload_request :: "json \<Rightarrow> (json \<times> json) list \<Rightarrow> string
    \<Rightarrow> string \<Rightarrow> string \<Rightarrow> request" where
  "upload_request action upload_data filename content mime_type =
     Post_files action upload_data (File_part filename content mime_type) 120"

definition upload_step3 :: "world \<Rightarrow> event list \<Rightarrow> string \<Rightarrow>
    string \<Rightarrow> string \<Rightarrow> json \<Rightarrow> json \<Rightarrow> json \<times>
    event list" where
  "upload_step3 w tr filename mime_type content action lease_fields =
     (case build_upload_data lease_fields of
        Inl e \<Rightarrow> (JNull, tr)
      | Inr upload_data \<Rightarrow>
          (let (out, tr') =
                 send w (upload_request action upload_data filename content mime_type) tr
           in case out of
                Raises \<Rightarrow> (JNull, tr')
              | Responds upload_response \<Rightarrow>
                  if status_code upload_response \<noteq> 200 then (JNull, tr')
                  else (extract_location (resp_body upload_response), tr')))"

text \<open>Step 2 (lines 295-300): download the file, then go on to step 3.\<close>

definition fetch_request :: "string \<Rightarrow> request" where
  "fetch_request media_url = Get_url media_url 60"

definition upload_step2 :: "world \<Rightarrow> event list \<Rightarrow> string \<Rightarrow>
    string \<Rightarrow> string \<Rightarrow> json \<Rightarrow> json \<Rightarrow> json \<times>
    event list" where
  "upload_step2 w tr media_url filename mime_type action lease_fields =
     (let (out, tr') = send w (fetch_request media_url) tr
      in case out of
           Raises \<Rightarrow> (JNull, tr')
         | Responds media_response \<Rightarrow>
             if status_code media_response \<noteq> 200 then (JNull, tr')
             else upload_step3 w tr' filename mime_type (resp_body media_response)
                    action lease_fields)"

text \<open>
  \<^verbatim>\<open>_upload_media\<close> (lines 253-333). The argument comes from the request
      body, so it is a
  JSON value: \<^verbatim>\<open>split\<close> exists on a \<^verbatim>\<open>str\<close> only.
      \<^verbatim>\<open>_get_headers()\<close> is evaluated
  before the lease request is made.
\<close>

definition lease_request :: "world \<Rightarrow> headers \<Rightarrow> string \<Rightarrow>
    request" where
  "lease_request w hdrs media_url =
     Post_form (api_base @ ''/api/media/asset'') hdrs
       [(''filepath'', JStr (media_filename media_url)),
        (''mimetype'', JStr (media_mime_type w (media_filename media_url)))] 30"

definition upload_media :: "world \<Rightarrow> poster \<Rightarrow> event list \<Rightarrow> json
    \<Rightarrow> json \<times> event list" where
  "upload_media w p tr media =
     (case media of
        JStr media_url \<Rightarrow>
          (let filename = media_filename media_url;
               mime_type = media_mime_type w filename
           in case get_headers p of
                Inl e \<Rightarrow> (JNull, tr)
              | Inr hdrs \<Rightarrow>
                  (let (out, tr') = send w (lease_request w hdrs media_url) tr
                   in case out of
                        Raises \<Rightarrow> (JNull, tr')
                      | Responds response \<Rightarrow>
                          if status_code response \<noteq> 200 then (JNull, tr')
                          else
                            (case lease_args response of
                               Inl e \<Rightarrow> (JNull, tr')
                             | Inr (action, lease_fields) \<Rightarrow>
                                 if \<not> truthy action \<or> \<not> truthy lease_fields then
                                     (JNull, tr')
                                 else upload_step2 w tr' media_url filename mime_type
                                        action lease_fields)))
      | _ \<Rightarrow> (JNull, tr))"

text \<open>Lines 366-368 of \<^verbatim>\<open>post_media\<close>: the kind of the media
    post.\<close>

definition media_kind :: "string \<Rightarrow> string" where
  "media_kind media_url =
     (let is_video = (py_endswith (py_lower media_url) ''.mp4'' \<or>
                      py_in ''video'' (py_lower media_url))
      in if is_video then ''video'' else ''image'')"

definition media_data :: "json \<Rightarrow> json \<Rightarrow> json \<Rightarrow> string
    \<Rightarrow> json \<Rightarrow> json \<Rightarrow> (string \<times> json) list" where
  "media_data subreddit title uploaded_url kind body_text flair_id =
     [(''api_type'', JStr ''json''), (''sr'', subreddit), (''title'', title),
      (''url'', uploaded_url), (''kind'', JStr kind),
      (''text'', if truthy body_text then body_text else JStr [])]
     @ flair_item flair_id"

text \<open>\<^verbatim>\<open>post_media\<close> (lines 335-407): the body of the
    \<^verbatim>\<open>try\<close>, then the operation.\<close>

definition media_submit :: "world \<Rightarrow> poster \<Rightarrow> event list \<Rightarrow> json
    \<Rightarrow> json \<Rightarrow> json \<Rightarrow> json \<Rightarrow> json \<Rightarrow> json
    \<times> poster \<times> event list" where
  "media_submit w p tr subreddit title media body_text flair_id =
     (case upload_media w p tr media of
        (uploaded_url, tr1) \<Rightarrow>
          if \<not> truthy uploaded_url then (JNull, p, tr1)
          else (case media of
                  JStr media_url \<Rightarrow>
                    submit w p tr1
                      (media_data subreddit title uploaded_url (media_kind media_url)
                         body_text flair_id)
                | _ \<Rightarrow> (JNull, p, tr1)))"

definition post_media :: "world \<Rightarrow> poster \<Rightarrow> event list \<Rightarrow> json
    \<Rightarrow> json \<Rightarrow> json \<Rightarrow> json \<Rightarrow> json \<Rightarrow> json
    \<times> poster \<times> event list" where
  "post_media w p tr subreddit title media body_text flair_id =
     (if \<not> truthy (access_token p) then
        (case authenticate w p tr of
           (ok, p1, tr1) \<Rightarrow>
             if \<not> ok then (JNull, p1, tr1)
             else media_submit w p1 tr1 subreddit title media body_text flair_id)
      else media_submit w p tr subreddit title media body_text flair_id)"

section \<open>The service: configuration and the \<^verbatim>\<open>/post\<close> handler\<close>

text \<open>
  The configuration file \<^verbatim>\<open>reddit_config.json\<close>: absent, present but not
      readable as
  JSON, or a dict of strings (\<^verbatim>\<open>load_config\<close> is annotated
      \<^verbatim>\<open>Dict[str, str]\<close>).
  \<^verbatim>\<open>load_config\<close> (lines 410-437) writes the example configuration when the
      file is
  absent.
\<close>

datatype config_file = Absent | Unreadable | Content "(string \<times> string) list"

definition example_config :: "(string \<times> string) list" where
  "example_config =
     [(''client_id'', ''YOUR_CLIENT_ID''),
      (''client_secret'', ''YOUR_CLIENT_SECRET''),
      (''username'', ''YOUR_USERNAME''),
      (''password'', ''YOUR_PASSWORD''),
      (''user_agent'', ''LivePosting/1.0 (by /u/YOUR_USERNAME)''),
      (''default_subreddit'', ''test'')]"

fun load_config :: "config_file \<Rightarrow> (py_exn + (string \<times> string) list) \<times>
    config_file" where
  "load_config Absent = (Inr example_config, Content example_config)"
| "load_config Unreadable = (Inl JSONDecodeError, Unreadable)"
| "load_config (Content c) = (Inr c, Content c)"

text \<open>
  The state of the process: the global \<^verbatim>\<open>poster\<close> (\<open>None\<close>
      before initialisation), the
  configuration file, and the history of calls and requests.
\<close>

record app =
  the_poster :: "poster option"
  cfg_file :: config_file
  trace :: "event list"

definition required_keys :: "string list" where
  "required_keys = [''client_id'', ''client_secret'', ''username'', ''password'']"

text \<open>
  \<^verbatim>\<open>init_poster\<close> (lines 444-469); the result is the exception it raises,
      if any. The
  global is assigned before \<^verbatim>\<open>authenticate\<close> is called.
\<close>

definition init_poster :: "world \<Rightarrow> app \<Rightarrow> py_exn option \<times> app" where
  "init_poster w a =
     (case load_config (cfg_file a) of
        (Inl e, cf) \<Rightarrow> (Some e, a\<lparr>cfg_file := cf\<rparr>)
      | (Inr config, cf) \<Rightarrow>
          (let a1 = a\<lparr>cfg_file := cf\<rparr>;
               missing_keys =
                 filter (\<lambda>key. map_of config key = Some (''YOUR_'' @ py_upper key))
                     required_keys
           in if missing_keys \<noteq> [] then (Some ValueError, a1)
              else
                (case (map_of config ''client_id'', map_of config ''client_secret'',
                       map_of config ''username'', map_of config ''password'') of
                   (Some cid, Some secret, Some user, Some pass) \<Rightarrow>
                     (case authenticate w
                             (new_poster cid secret user pass (map_of config ''user_agent''))
                             (trace a1) of
                        (ok, p1, tr1) \<Rightarrow>
                          (if ok then None else Some ValueError,
                           a1\<lparr>the_poster := Some p1, trace := tr1\<rparr>))
                 | _ \<Rightarrow> (Some KeyError, a1))))"

text \<open>
  The replies of the handler: the success reply carries \<^verbatim>\<open>post_id\<close>,
      \<^verbatim>\<open>post_name\<close> and
  the permalink that the f-string appends to \<^verbatim>\<open>https://reddit.com\<close>; the
      others are the
  error replies, with their HTTP status.
\<close>

datatype reply =
    Success json json json
  | Init_failed py_exn
  | No_json_data
  | Missing_title
  | Publish_failed
  | Internal_error py_exn

fun reply_status :: "reply \<Rightarrow> nat" where
  "reply_status (Success post_id post_name permalink) = 200"
| "reply_status (Init_failed e) = 500"
| "reply_status No_json_data = 400"
| "reply_status Missing_title = 400"
| "reply_status Publish_failed = 500"
| "reply_status (Internal_error e) = 500"

text \<open>Lines 520-524: the subreddit of the request, or the default of the
    configuration.\<close>

definition resolve_subreddit :: "json \<Rightarrow> config_file \<Rightarrow> (py_exn + json)
    \<times> config_file" where
  "resolve_subreddit subreddit cf =
     (if \<not> truthy subreddit then
        (case load_config cf of
           (Inl e, cf1) \<Rightarrow> (Inl e, cf1)
         | (Inr config, cf1) \<Rightarrow>
             (Inr (JStr (case map_of config ''default_subreddit'' of
                           None \<Rightarrow> ''test''
                         | Some s \<Rightarrow> s)), cf1))
      else (Inr subreddit, cf))"

text \<open>Lines 535-542: the post type, detected when the request gives none.\<close>

definition detect_post_type :: "json \<Rightarrow> json \<Rightarrow> json \<Rightarrow> json"
    where
  "detect_post_type post_type url media_url =
     (if \<not> truthy post_type then
        (if truthy media_url then JStr ''media''
         else if truthy url then JStr ''link''
         else JStr ''self'')
      else post_type)"

text \<open>Lines 544-568: the operation chosen by the type.\<close>

definition publish :: "world \<Rightarrow> poster \<Rightarrow> event list \<Rightarrow> json
    \<Rightarrow> json \<Rightarrow> json \<Rightarrow> json \<Rightarrow> json \<Rightarrow> json
    \<Rightarrow> json \<Rightarrow> json \<times> poster \<times> event list" where
  "publish w p tr post_type subreddit title body_text url media_url flair_id =
     (if post_type = JStr ''media'' \<and> truthy media_url then
        post_media w p tr subreddit title media_url body_text flair_id
      else if post_type = JStr ''link'' \<and> truthy url then
        post_link w p tr subreddit title url body_text flair_id
      else
        post_text w p tr subreddit title body_text flair_id)"

text \<open>Lines 570-579: the reply for the result of the operation.\<close>

definition make_reply :: "json \<Rightarrow> reply" where
  "make_reply result =
     (if truthy result then
        (case result of
           JObj r \<Rightarrow>
             (case dict_get r ''json'' (JObj []) of
                JObj envelope \<Rightarrow>
                  (case dict_get envelope ''data'' (JObj []) of
                     JObj post_data \<Rightarrow>
                       Success (dict_get post_data ''id'' JNull)
                         (dict_get post_data ''name'' JNull)
                         (dict_get post_data ''permalink'' (JStr []))
                   | _ \<Rightarrow> Internal_error AttributeError)
              | _ \<Rightarrow> Internal_error AttributeError)
         | _ \<Rightarrow> Internal_error AttributeError)
      else Publish_failed)"

text \<open>
  Lines 509-582, with the poster at hand. The request body is what
  \<^verbatim>\<open>request.get_json()\<close> gives, \<open>None\<close> when it raises;
      \<^verbatim>\<open>data.get\<close> raises on a value
  that is not a dict.
\<close>

definition handle_post :: "world \<Rightarrow> app \<Rightarrow> poster \<Rightarrow> json option
    \<Rightarrow> reply \<times> app" where
  "handle_post w a p request_json =
     (case request_json of
        None \<Rightarrow> (Internal_error BadRequest, a)
      | Some data \<Rightarrow>
          if \<not> truthy data then (No_json_data, a)
          else
            (case data of
               JObj kvs \<Rightarrow>
                 (let title = dict_get kvs ''title'' JNull
                  in if \<not> truthy title then (Missing_title, a)
                     else
                       (case resolve_subreddit (dict_get kvs ''subreddit'' JNull) (cfg_file a) of
                          (Inl e, cf) \<Rightarrow> (Internal_error e, a\<lparr>cfg_file :=
                              cf\<rparr>)
                        | (Inr subreddit, cf) \<Rightarrow>
                            (let body_text = dict_get kvs ''text'' (JStr []);
                                 url = dict_get kvs ''url'' JNull;
                                 media_url = dict_get kvs ''media_url'' JNull;
                                 flair_id = dict_get kvs ''flair_id'' JNull;
                                 post_type =
                                   detect_post_type (dict_get kvs ''post_type'' JNull) url
                                       media_url
                             in case publish w p (trace a) post_type subreddit title body_text
                                       url media_url flair_id of
                                  (result, p1, tr1) \<Rightarrow>
                                    (make_reply result,
                                     a\<lparr>the_poster := Some p1, cfg_file := cf, trace :=
                                         tr1\<rparr>))))
             | _ \<Rightarrow> (Internal_error AttributeError, a)))"

text \<open>\<^verbatim>\<open>post_to_reddit\<close> (lines 482-582).\<close>

definition post_to_reddit :: "world \<Rightarrow> app \<Rightarrow> json option \<Rightarrow>
    reply \<times> app" where
  "post_to_reddit w a request_json =
     (case the_poster a of
        None \<Rightarrow>
          (case init_poster w a of
             (Some e, a1) \<Rightarrow> (Init_failed e, a1)
           | (None, a1) \<Rightarrow>
               (case the_poster a1 of
                  None \<Rightarrow> (Internal_error AttributeError, a1)
                | Some p \<Rightarrow> handle_post w a1 p request_json))
      | Some p \<Rightarrow> handle_post w a p request_json)"

section \<open>Observations on histories\<close>

text \<open>
  The events an operation added to the history, the number of calls of
  \<^verbatim>\<open>authenticate\<close> among some events, and the three shapes the claims speak
      of: no call
  of \<^verbatim>\<open>authenticate\<close> was added; exactly one was added and it came first;
      nothing but
  one call of \<^verbatim>\<open>authenticate\<close> and at most its own token request was added.
\<close>

definition new_events :: "event list \<Rightarrow> event list \<Rightarrow> event list" where
  "new_events before after = drop (length before) after"

definition extends :: "event list \<Rightarrow> event list \<Rightarrow> bool" where
  "extends before after = (take (length before) after = before)"

definition auth_attempts :: "event list \<Rightarrow> nat" where
  "auth_attempts evs = length (filter (\<lambda>e. e = Authenticate_called) evs)"

definition no_auth :: "event list \<Rightarrow> event list \<Rightarrow> bool" where
  "no_auth before after =
     (extends before after \<and> auth_attempts (new_events before after) = 0)"

definition auth_once_first :: "event list \<Rightarrow> event list \<Rightarrow> bool" where
  "auth_once_first before after =
     (extends before after \<and>
      (case new_events before after of
         [] \<Rightarrow> False
       | e # rest \<Rightarrow> e = Authenticate_called \<and> auth_attempts rest = 0))"

definition only_auth_events :: "poster \<Rightarrow> event list \<Rightarrow> event list
    \<Rightarrow> bool" where
  "only_auth_events p before after =
     (extends before after \<and>
      (new_events before after = [Authenticate_called] \<or>
       new_events before after = [Authenticate_called, Sent (token_request p)]))"

text \<open>
  What claim C1 asks of a submission operation that starts with poster \<open>p\<close> and
      history
  \<open>tr\<close> and ends with the given result, stated on the truth value of the stored token,
  which is what the code tests: with a truthy token no authentication attempt; with a
  falsy one (null, or empty) exactly one, first, and when that attempt fails the null
  result with no request but the attempt's own.
\<close>

definition lazy_auth_contract :: "world \<Rightarrow> poster \<Rightarrow> event list
    \<Rightarrow> json \<times> poster \<times> event list \<Rightarrow> bool" where
  "lazy_auth_contract w p tr result =
     (case result of
        (res, p', tr') \<Rightarrow>
          if truthy (access_token p) then no_auth tr tr'
          else auth_once_first tr tr' \<and>
               (if fst (authenticate w p tr) then True
                else res = JNull \<and> only_auth_events p tr tr'))"

text \<open>
  Two readings of the lease response (lines 286-291): it is usable when
      \<^verbatim>\<open>action\<close> and
  \<^verbatim>\<open>fields\<close> are both there and truthy; it lacks both when neither is.
\<close>

definition lease_usable :: "response \<Rightarrow> bool" where
  "lease_usable r =
     (case lease_args r of
        Inl e \<Rightarrow> False
      | Inr (action, lease_fields) \<Rightarrow> truthy action \<and> truthy lease_fields)"

definition lease_lacks_both :: "response \<Rightarrow> bool" where
  "lease_lacks_both r =
     (case lease_args r of
        Inl e \<Rightarrow> True
      | Inr (action, lease_fields) \<Rightarrow> \<not> truthy action \<and> \<not> truthy
          lease_fields)"

text \<open>
  The history of an upload that went through its three requests, and what it takes to
  get there for a media URL \<open>u\<close>: the headers are at hand, the lease response has
      status
  200 and a usable lease with the given \<^verbatim>\<open>action\<close> whose
      \<^verbatim>\<open>fields\<close> give the upload form,
  the download has status 200 and the given content, and the upload response has status
  200 and the given body.
\<close>

definition upload_history :: "world \<Rightarrow> headers \<Rightarrow> string \<Rightarrow> json
    \<Rightarrow> (json \<times> json) list \<Rightarrow> string \<Rightarrow> event list" where
  "upload_history w hdrs u action upload_data content =
     [Sent (lease_request w hdrs u), Sent (fetch_request u),
      Sent (upload_request action upload_data (media_filename u) content
              (media_mime_type w (media_filename u)))]"

definition upload_answered :: "world \<Rightarrow> poster \<Rightarrow> event list \<Rightarrow>
    string \<Rightarrow> headers \<Rightarrow> json \<Rightarrow> (json \<times> json) list
    \<Rightarrow> string \<Rightarrow> string \<Rightarrow> bool" where
  "upload_answered w p tr u hdrs action upload_data content upload_body =
     (get_headers p = Inr hdrs \<and>
      (case network w tr (lease_request w hdrs u) of
         Raises \<Rightarrow> False
       | Responds r1 \<Rightarrow>
           status_code r1 = 200 \<and>
           (case lease_args r1 of
              Inl e \<Rightarrow> False
            | Inr (a, f) \<Rightarrow>
                a = action \<and> truthy a \<and> truthy f \<and> build_upload_data f = Inr
                    upload_data)) \<and>
      (case network w (tr @ [Sent (lease_request w hdrs u)]) (fetch_request u) of
         Raises \<Rightarrow> False
       | Responds r2 \<Rightarrow> status_code r2 = 200 \<and> resp_body r2 = content) \<and>
      (case network w (tr @ [Sent (lease_request w hdrs u), Sent (fetch_request u)])
              (upload_request action upload_data (media_filename u) content
                 (media_mime_type w (media_filename u))) of
         Raises \<Rightarrow> False
       | Responds r3 \<Rightarrow> status_code r3 = 200 \<and> resp_body r3 = upload_body))"

section \<open>Concrete inputs\<close>

text \<open>
  A poster as \<^verbatim>\<open>init_poster\<close> builds it from a filled-in configuration, a
      world whose
  remote system gives the same outcome to every request, and replies of the remote
  endpoints; used to run the model on concrete inputs.
\<close>

definition demo_poster :: poster where
  "demo_poster = new_poster ''abc'' ''s3cret'' ''alice'' ''pw'' None"

definition constant_world :: "outcome \<Rightarrow> world" where
  "constant_world out = \<lparr> network = (\<lambda>tr r. out), guess_type = (\<lambda>f. None)
      \<rparr>"

definition json_reply :: "int \<Rightarrow> json \<Rightarrow> outcome" where
  "json_reply code j = Responds \<lparr> status_code = code, resp_body = [], body_json = Some j
      \<rparr>"

definition text_reply :: "int \<Rightarrow> string \<Rightarrow> outcome" where
  "text_reply code s = Responds \<lparr> status_code = code, resp_body = s, body_json = None
      \<rparr>"

text \<open>
  A world that answers by the kind of request: the form posts (lease, submission), the
  download, the upload. A poster that holds a token, and a lease reply.
\<close>

definition media_world :: "outcome \<Rightarrow> outcome \<Rightarrow> outcome \<Rightarrow>
    world" where
  "media_world form_outcome fetch_outcome upload_outcome =
     \<lparr> network = (\<lambda>tr r. case r of
                         Post_form u h d t \<Rightarrow> form_outcome
                       | Get_url u t \<Rightarrow> fetch_outcome
                       | Post_files a d f t \<Rightarrow> upload_outcome),
       guess_type = (\<lambda>f. None) \<rparr>"

definition authed_poster :: poster where
  "authed_poster = demo_poster\<lparr>access_token := JStr ''tok''\<rparr>"

definition authed_headers :: headers where
  "authed_headers =
     Headers (Token ''Bearer'' (JStr ''tok'')) ''LivePosting/1.0 (by /u/alice)''
       form_content_type"

definition lease_reply :: outcome where
  "lease_reply =
     json_reply 200
       (JObj [(''args'',
               JObj [(''action'', JStr ''//bucket.s3/amazon''),
                     (''fields'',
                      JArr [JObj [(''name'', JStr ''a''), (''value'', JStr ''1'')]])])])"

text \<open>
  A running service whose poster holds a token, and the reply of the submission endpoint
  from the end-to-end scenario of the specification.
\<close>

definition demo_app :: app where
  "demo_app = \<lparr> the_poster = Some authed_poster, cfg_file = Absent, trace = [] \<rparr>"

definition submit_ok_reply :: outcome where
  "submit_ok_reply =
     json_reply 200
       (JObj [(''json'',
               JObj [(''data'',
                      JObj [(''id'', JStr ''abc''), (''name'', JStr ''t3_abc''),
                            (''permalink'', JStr ''/r/test/abc'')])])])"

text \<open>
  A world in which the lease and the download succeed and the upload response has status
  200 and the given body.
\<close>

definition upload_world :: "string \<Rightarrow> world" where
  "upload_world upload_body =
     media_world lease_reply (text_reply 200 ''bytes'') (text_reply 200 upload_body)"

section \<open>Searching and slicing\<close>

lemma occurs_at_0: "occurs_at t s 0 = py_startswith s t"
proof -
  have "take (length t) s = t \<Longrightarrow> length t \<le> length s"
  proof -
    assume "take (length t) s = t"
    then have "length (take (length t) s) = length t" by simp
    then show ?thesis by simp
  qed
  then show ?thesis by (auto simp: occurs_at_def py_startswith_def)
qed

lemma occurs_at_Suc: "occurs_at t (c # cs) (Suc i) = occurs_at t cs i"
  by (simp add: occurs_at_def)

lemma py_find_range: "py_find s t = -1 \<or> 0 \<le> py_find s t"
  by (induction s) (auto simp: Let_def)

lemma py_find_none: "(py_find s t = -1) = (\<forall>k. \<not> occurs_at t s k)"
proof (induction s)
  case Nil
  show ?case by (auto simp: occurs_at_def)
next
  case (Cons c cs)
  show ?case
  proof (cases "py_startswith (c # cs) t")
    case True
    then show ?thesis using occurs_at_0 [of t "c # cs"] by auto
  next
    case False
    have "(\<forall>k. \<not> occurs_at t (c # cs) k) = (\<forall>k. \<not> occurs_at t cs k)"
    proof
      assume a: "\<forall>k. \<not> occurs_at t (c # cs) k"
      show "\<forall>k. \<not> occurs_at t cs k"
      proof
        fix k show "\<not> occurs_at t cs k" using a [rule_format, of "Suc k"] by (simp add:
            occurs_at_Suc)
      qed
    next
      assume a: "\<forall>k. \<not> occurs_at t cs k"
      show "\<forall>k. \<not> occurs_at t (c # cs) k"
      proof
        fix k show "\<not> occurs_at t (c # cs) k"
          using a False by (cases k) (simp_all add: occurs_at_0 occurs_at_Suc)
      qed
    qed
    with False Cons py_find_range [of cs t] show ?thesis by (auto simp: Let_def)
  qed
qed

lemma py_find_first: "first_at t s i \<Longrightarrow> py_find s t = int i"
proof (induction s arbitrary: i)
  case Nil
  then show ?case by (auto simp: first_at_def occurs_at_def)
next
  case (Cons c cs)
  show ?case
  proof (cases i)
    case 0
    with Cons.prems show ?thesis by (simp add: first_at_def occurs_at_0)
  next
    case (Suc j)
    from Cons.prems Suc have n0: "\<not> py_startswith (c # cs) t"
      by (auto simp: first_at_def list_all_iff occurs_at_0 [symmetric])
    have "first_at t cs j"
      unfolding first_at_def list_all_iff
    proof (intro conjI ballI)
      show "occurs_at t cs j" using Cons.prems Suc by (simp add: first_at_def occurs_at_Suc)
    next
      fix k assume "k \<in> set [0..<j]"
      then have "Suc k \<in> set [0..<i]" using Suc by auto
      then have "\<not> occurs_at t (c # cs) (Suc k)"
        using Cons.prems by (simp add: first_at_def list_all_iff)
      then show "\<not> occurs_at t cs k" by (simp add: occurs_at_Suc)
    qed
    then have "py_find cs t = int j" by (rule Cons.IH)
    with n0 Suc show ?thesis by (simp add: Let_def)
  qed
qed

lemma py_in_occurs: "py_in t s = (\<exists>k. occurs_at t s k)"
proof (induction s)
  case Nil
  show ?case by (auto simp: occurs_at_def)
next
  case (Cons c cs)
  have "(\<exists>k. occurs_at t (c # cs) k) = (occurs_at t (c # cs) 0 \<or> (\<exists>k.
      occurs_at t cs k))"
    (is "?L = ?R")
  proof
    assume ?L
    then obtain k where k: "occurs_at t (c # cs) k" ..
    then show ?R by (cases k) (auto simp: occurs_at_Suc)
  next
    assume ?R
    then show ?L using occurs_at_Suc by blast
  qed
  with Cons show ?case by (simp add: occurs_at_0)
qed

lemma occurs_iff: "occurs t s = (\<exists>k. occurs_at t s k)"
proof -
  have "occurs_at t s k \<Longrightarrow> k \<in> set [0..<Suc (length s)]" for k
    by (auto simp: occurs_at_def)
  then show ?thesis unfolding occurs_def list_ex_iff by blast
qed


lemma py_in_iff: "py_in t s = occurs t s"
  by (simp add: py_in_occurs occurs_iff)

lemma slice_between:
  assumes "s = p @ t @ m @ r"
  shows "py_slice s (int (length p) + int (length t)) (int (length p + length t + length m)) = m"
  using assms by (simp add: py_slice_def py_index_def Let_def nat_add_distrib)

lemma py_index_last: "py_index n (-1) = n - 1"
  by (simp add: py_index_def)

lemma slice_to_last:
  assumes "s = p @ t @ r"
  shows "py_slice s (int (length p) + int (length t)) (-1) = butlast r"
proof -
  have "py_index (length s) (int (length p) + int (length t)) = length p + length t"
    using assms by (simp add: py_index_def nat_add_distrib)
  moreover have "length s - 1 - (length p + length t) = length r - 1"
    using assms by simp
  ultimately show ?thesis
    using assms by (simp add: py_slice_def py_index_last Let_def butlast_conv_take)
qed

text \<open>The value of the location step, case by case.\<close>

lemma extract_no_open:
  "\<not> occurs ''<Location>'' body \<Longrightarrow> extract_location body = JNull"
  by (simp add: extract_location_def py_in_iff)

lemma extract_found:
  assumes "first_at ''<Location>'' body i"
  shows "extract_location body =
     JStr (py_slice body (int i + 10) (py_find body ''</Location>''))"
proof -
  from assms have "occurs_at ''<Location>'' body i" by (simp add: first_at_def)
  then have "py_in ''<Location>'' body" unfolding py_in_occurs by blast
  moreover have "py_find body ''<Location>'' = int i"
    using assms by (rule py_find_first)
  ultimately show ?thesis by (simp add: extract_location_def Let_def)
qed

lemma extract_between:
  assumes d: "body = pre @ ''<Location>'' @ m @ ''</Location>'' @ r"
    and o: "first_at ''<Location>'' body (length pre)"
    and c: "first_at ''</Location>'' body (length pre + 10 + length m)"
  shows "extract_location body = JStr m"
proof -
  have f2: "py_find body ''</Location>'' = int (length pre + 10 + length m)"
    using c by (rule py_find_first)
  from d have d': "body = pre @ ''<Location>'' @ m @ (''</Location>'' @ r)" by simp
  have sl: "py_slice body (int (length pre) + int (length ''<Location>''))
      (int (length pre + length ''<Location>'' + length m)) = m"
    using d' by (rule slice_between)
  have a1: "int (length pre) + 10 = int (length pre) + int (length ''<Location>'')"
    by simp
  have a2: "int (length pre + 10 + length m) =
      int (length pre + length ''<Location>'' + length m)"
    by simp
  show ?thesis
    by (simp only: extract_found [OF o] f2 a1 a2 sl)
qed

lemma extract_close_early:
  assumes o: "first_at ''<Location>'' body i"
    and c: "first_at ''</Location>'' body j"
    and e: "j < i + 10"
  shows "extract_location body = JStr []"
proof -
  have f2: "py_find body ''</Location>'' = int j"
    using c by (rule py_find_first)
  from o have "i + 10 \<le> length body" by (simp add: first_at_def occurs_at_def)
  with e have "py_slice body (int i + 10) (int j) = []"
    by (simp add: py_slice_def py_index_def Let_def nat_add_distrib)
  then show ?thesis
    by (simp only: extract_found [OF o] f2)
qed

lemma extract_unclosed:
  assumes d: "body = pre @ ''<Location>'' @ r"
    and o: "first_at ''<Location>'' body (length pre)"
    and n: "\<not> occurs ''</Location>'' body"
  shows "py_find body ''</Location>'' = -1 \<and> extract_location body = JStr (butlast r)"
proof -
  from n have f2: "py_find body ''</Location>'' = -1"
    by (simp add: py_find_none occurs_iff)
  have sl: "py_slice body (int (length pre) + int (length ''<Location>'')) (-1) = butlast r"
    using d by (rule slice_to_last)
  have a1: "int (length pre) + 10 = int (length pre) + int (length ''<Location>'')"
    by simp
  have "extract_location body = JStr (butlast r)"
    by (simp only: extract_found [OF o] f2 a1 sl)
  with f2 show ?thesis by blast
qed

lemma demo_location:
  "extract_location ''<PostResponse><Location>https://cdn/x.jpg</Location></PostResponse>'' =
     JStr ''https://cdn/x.jpg''"
  by code_simp

section \<open>Authentication\<close>

lemma authenticate_not_ascii:
  "\<not> is_ascii (client_id p @ '':'' @ client_secret p) \<Longrightarrow>
   authenticate w p tr = (False, p, tr @ [Authenticate_called])"
  by (simp add: authenticate_def)

lemma authenticate_sent:
  "is_ascii (client_id p @ '':'' @ client_secret p) \<Longrightarrow>
   authenticate w p tr =
     (case network w (tr @ [Authenticate_called]) (token_request p) of
        Raises \<Rightarrow> (False, p, tr @ [Authenticate_called, Sent (token_request p)])
      | Responds r \<Rightarrow>
          (if status_code r = 200 then
             (case body_json r of
                Some (JObj kvs) \<Rightarrow>
                  (True,
                   p\<lparr>access_token := dict_get kvs ''access_token'' JNull,
                     token_type := dict_get kvs ''token_type'' (JStr ''bearer'')\<rparr>,
                   tr @ [Authenticate_called, Sent (token_request p)])
              | _ \<Rightarrow> (False, p, tr @ [Authenticate_called, Sent (token_request p)]))
           else (False, p, tr @ [Authenticate_called, Sent (token_request p)])))"
  by (simp add: authenticate_def send_def Let_def split: outcome.splits option.splits json.splits)

text \<open>
  Claim C4, as the code has it. \<^verbatim>\<open>authenticate\<close> returns false and leaves
      the poster
  (so the stored token) as it was when the credentials cannot be encoded, when the
  request raises, when the status is not 200, and also when the status is 200 but the
  body is not a JSON object; for a 200 response whose body is a JSON object it returns
  true and stores \<^verbatim>\<open>access_token\<close> (null when absent) and
      \<^verbatim>\<open>token_type\<close> (\<^verbatim>\<open>bearer\<close> when
  absent). The result is always a value: no exception leaves the operation.
\<close>

theorem authenticate_result:
  "(\<not> is_ascii (client_id p @ '':'' @ client_secret p) \<longrightarrow>
      authenticate w p tr = (False, p, tr @ [Authenticate_called])) \<and>
   (is_ascii (client_id p @ '':'' @ client_secret p) \<and>
    network w (tr @ [Authenticate_called]) (token_request p) = out \<longrightarrow>
      (out = Raises \<or> (\<exists>r. out = Responds r \<and> status_code r \<noteq> 200)
          \<longrightarrow>
         authenticate w p tr = (False, p, tr @ [Authenticate_called, Sent (token_request p)]))
             \<and>
      (\<forall>r kvs. out = Responds r \<and> status_code r = 200 \<and> body_json r = Some (JObj
          kvs) \<longrightarrow>
         authenticate w p tr =
           (True,
            p\<lparr>access_token := (case map_of kvs ''access_token'' of None \<Rightarrow> JNull
                | Some v \<Rightarrow> v),
              token_type := (case map_of kvs ''token_type'' of
                               None \<Rightarrow> JStr ''bearer'' | Some v \<Rightarrow>
                                   v)\<rparr>,
            tr @ [Authenticate_called, Sent (token_request p)])) \<and>
      (\<forall>r. out = Responds r \<and> status_code r = 200 \<and>
            (\<forall>kvs. body_json r \<noteq> Some (JObj kvs)) \<longrightarrow>
         authenticate w p tr = (False, p, tr @ [Authenticate_called, Sent (token_request p)])))"
proof (intro conjI impI allI)
  assume "\<not> is_ascii (client_id p @ '':'' @ client_secret p)"
  then show "authenticate w p tr = (False, p, tr @ [Authenticate_called])"
    by (rule authenticate_not_ascii)
next
  assume a: "is_ascii (client_id p @ '':'' @ client_secret p) \<and>
    network w (tr @ [Authenticate_called]) (token_request p) = out"
    and o: "out = Raises \<or> (\<exists>r. out = Responds r \<and> status_code r \<noteq> 200)"
  from a o show "authenticate w p tr = (False, p, tr @ [Authenticate_called, Sent (token_request
      p)])"
    by (auto simp: authenticate_sent)
next
  fix r kvs
  assume a: "is_ascii (client_id p @ '':'' @ client_secret p) \<and>
    network w (tr @ [Authenticate_called]) (token_request p) = out"
    and o: "out = Responds r \<and> status_code r = 200 \<and> body_json r = Some (JObj kvs)"
  from a o show "authenticate w p tr =
           (True,
            p\<lparr>access_token := (case map_of kvs ''access_token'' of None \<Rightarrow> JNull
                | Some v \<Rightarrow> v),
              token_type := (case map_of kvs ''token_type'' of
                               None \<Rightarrow> JStr ''bearer'' | Some v \<Rightarrow>
                                   v)\<rparr>,
            tr @ [Authenticate_called, Sent (token_request p)])"
    by (simp add: authenticate_sent dict_get_def)
next
  fix r
  assume a: "is_ascii (client_id p @ '':'' @ client_secret p) \<and>
    network w (tr @ [Authenticate_called]) (token_request p) = out"
    and o: "out = Responds r \<and> status_code r = 200 \<and>
            (\<forall>kvs. body_json r \<noteq> Some (JObj kvs))"
  from a o show "authenticate w p tr = (False, p, tr @ [Authenticate_called, Sent (token_request
      p)])"
    by (auto simp: authenticate_sent split: option.splits json.splits)
qed

lemma demo_ascii: "is_ascii (client_id demo_poster @ '':'' @ client_secret demo_poster)"
  by (simp add: demo_poster_def new_poster_def is_ascii_def)

text \<open>
  The claim as stated, that every 200 response makes \<^verbatim>\<open>authenticate\<close>
      return true, fails
  on a 200 response whose body is not JSON: \<^verbatim>\<open>response.json()\<close> raises
      inside the
  \<^verbatim>\<open>try\<close> and the operation returns false.
\<close>

theorem authenticate_200_not_json_counterexample:
  "status_code \<lparr> status_code = 200, resp_body = ''<html>Bad gateway</html>'', body_json =
      None \<rparr> = 200 \<and>
   authenticate (constant_world (text_reply 200 ''<html>Bad gateway</html>'')) demo_poster [] =
     (False, demo_poster, [Authenticate_called, Sent (token_request demo_poster)])"
  by (simp add: authenticate_sent [OF demo_ascii] constant_world_def text_reply_def)


theorem authenticate_result_witness:
  "is_ascii (client_id demo_poster @ '':'' @ client_secret demo_poster) \<and>
   authenticate (constant_world Raises) demo_poster [] =
     (False, demo_poster, [Authenticate_called, Sent (token_request demo_poster)]) \<and>
   authenticate (constant_world (text_reply 401 ''Unauthorized'')) demo_poster [] =
     (False, demo_poster, [Authenticate_called, Sent (token_request demo_poster)]) \<and>
   authenticate (constant_world (json_reply 200 (JObj [(''access_token'', JStr ''tok'')])))
       demo_poster [] =
     (True, demo_poster\<lparr>access_token := JStr ''tok'', token_type := JStr
         ''bearer''\<rparr>,
      [Authenticate_called, Sent (token_request demo_poster)]) \<and>
   authenticate (constant_world (json_reply 200 (JArr []))) demo_poster [] =
     (False, demo_poster, [Authenticate_called, Sent (token_request demo_poster)]) \<and>
   \<not> is_ascii (client_id (demo_poster\<lparr>client_id := [CHR 0xE9]\<rparr>) @ '':'' @
               client_secret (demo_poster\<lparr>client_id := [CHR 0xE9]\<rparr>)) \<and>
   authenticate (constant_world Raises) (demo_poster\<lparr>client_id := [CHR 0xE9]\<rparr>) [] =
     (False, demo_poster\<lparr>client_id := [CHR 0xE9]\<rparr>, [Authenticate_called])"
proof -
  have n: "\<not> is_ascii (client_id (demo_poster\<lparr>client_id := [CHR 0xE9]\<rparr>) @ '':''
      @
               client_secret (demo_poster\<lparr>client_id := [CHR 0xE9]\<rparr>))"
    by (simp add: is_ascii_def)
  have 1: "authenticate (constant_world Raises) demo_poster [] =
     (False, demo_poster, [Authenticate_called, Sent (token_request demo_poster)])"
    using demo_ascii
      authenticate_result [of demo_poster "constant_world Raises" "[]" Raises]
    by (simp add: constant_world_def)
  have 2: "authenticate (constant_world (text_reply 401 ''Unauthorized'')) demo_poster [] =
     (False, demo_poster, [Authenticate_called, Sent (token_request demo_poster)])"
    using demo_ascii
      authenticate_result [of demo_poster "constant_world (text_reply 401 ''Unauthorized'')" "[]"
        "text_reply 401 ''Unauthorized''"]
    by (simp add: constant_world_def text_reply_def)
  have 3: "authenticate (constant_world (json_reply 200 (JObj [(''access_token'', JStr
      ''tok'')])))
       demo_poster [] =
     (True, demo_poster\<lparr>access_token := JStr ''tok'', token_type := JStr
         ''bearer''\<rparr>,
      [Authenticate_called, Sent (token_request demo_poster)])"
    using demo_ascii
      authenticate_result [of demo_poster
        "constant_world (json_reply 200 (JObj [(''access_token'', JStr ''tok'')]))" "[]"
        "json_reply 200 (JObj [(''access_token'', JStr ''tok'')])"]
    by (simp add: constant_world_def json_reply_def)
  have 4: "authenticate (constant_world (json_reply 200 (JArr []))) demo_poster [] =
     (False, demo_poster, [Authenticate_called, Sent (token_request demo_poster)])"
    using demo_ascii
      authenticate_result [of demo_poster "constant_world (json_reply 200 (JArr []))" "[]"
        "json_reply 200 (JArr [])"]
    by (simp add: constant_world_def json_reply_def)
  have 5: "authenticate (constant_world Raises) (demo_poster\<lparr>client_id := [CHR
      0xE9]\<rparr>) [] =
     (False, demo_poster\<lparr>client_id := [CHR 0xE9]\<rparr>, [Authenticate_called])"
    using n authenticate_result [of "demo_poster\<lparr>client_id := [CHR 0xE9]\<rparr>"
        "constant_world Raises" "[]" Raises]
    by simp
  from demo_ascii n 1 2 3 4 5 show ?thesis by blast
qed

text \<open>
  Claim C8. On a 200 response whose JSON object has no \<^verbatim>\<open>access_token\<close>
      key,
  \<^verbatim>\<open>authenticate\<close> returns true and the stored token is null afterwards,
      whatever token
  was held before.
\<close>

theorem authenticate_200_without_access_token:
  "is_ascii (client_id p @ '':'' @ client_secret p) \<and>
   network w (tr @ [Authenticate_called]) (token_request p) = Responds r \<and>
   status_code r = 200 \<and> body_json r = Some (JObj kvs) \<and> map_of kvs ''access_token'' =
       None
     \<longrightarrow> fst (authenticate w p tr) = True \<and>
         access_token (fst (snd (authenticate w p tr))) = JNull \<and>
         \<not> truthy (access_token (fst (snd (authenticate w p tr))))"
  by (simp add: authenticate_sent dict_get_def)

theorem authenticate_200_without_access_token_witness:
  "truthy (access_token (demo_poster\<lparr>access_token := JStr ''valid''\<rparr>)) \<and>
   fst (authenticate (constant_world (json_reply 200 (JObj [(''token_type'', JStr ''bearer'')])))
          (demo_poster\<lparr>access_token := JStr ''valid''\<rparr>) []) = True \<and>
   access_token (fst (snd (authenticate
          (constant_world (json_reply 200 (JObj [(''token_type'', JStr ''bearer'')])))
          (demo_poster\<lparr>access_token := JStr ''valid''\<rparr>) []))) = JNull"
proof -
  have a: "is_ascii (client_id (demo_poster\<lparr>access_token := JStr ''valid''\<rparr>) @ '':''
      @
                     client_secret (demo_poster\<lparr>access_token := JStr ''valid''\<rparr>))"
    using demo_ascii by simp
  show ?thesis
    using a authenticate_200_without_access_token
      [of "demo_poster\<lparr>access_token := JStr ''valid''\<rparr>"
        "constant_world (json_reply 200 (JObj [(''token_type'', JStr ''bearer'')]))" "[]"
        "\<lparr> status_code = 200, resp_body = [], body_json = Some (JObj [(''token_type'', JStr
            ''bearer'')]) \<rparr>"
        "[(''token_type'', JStr ''bearer'')]"]
    by (simp add: constant_world_def json_reply_def)
qed

section \<open>Histories of the operations\<close>

lemma authenticate_events:
  "snd (snd (authenticate w p tr)) = tr @ [Authenticate_called] \<or>
   snd (snd (authenticate w p tr)) = tr @ [Authenticate_called, Sent (token_request p)]"
  by (cases "is_ascii (client_id p @ '':'' @ client_secret p)")
     (auto simp: authenticate_not_ascii authenticate_sent
           split: outcome.splits option.splits json.splits)

lemma no_auth_iff:
  "no_auth tr tr' = (\<exists>evs. tr' = tr @ evs \<and> Authenticate_called \<notin> set evs)"
proof
  assume a: "no_auth tr tr'"
  then have "tr' = tr @ drop (length tr) tr'"
    by (metis append_take_drop_id extends_def no_auth_def)
  moreover from a have "Authenticate_called \<notin> set (drop (length tr) tr')"
    by (auto simp: no_auth_def auth_attempts_def new_events_def filter_empty_conv)
  ultimately show "\<exists>evs. tr' = tr @ evs \<and> Authenticate_called \<notin> set evs" by
      blast
next
  assume "\<exists>evs. tr' = tr @ evs \<and> Authenticate_called \<notin> set evs"
  then show "no_auth tr tr'"
    by (auto simp: no_auth_def extends_def auth_attempts_def new_events_def filter_empty_conv)
qed

lemma no_auth_refl: "no_auth tr tr"
  by (simp add: no_auth_iff)

lemma no_auth_sent: "no_auth tr (tr @ [Sent r])"
  by (simp add: no_auth_iff)

lemma no_auth_trans: "no_auth a b \<Longrightarrow> no_auth b c \<Longrightarrow> no_auth a c"
  unfolding no_auth_iff by (metis Un_iff append.assoc set_append)

lemma no_auth_after_sent: "no_auth (tr @ [Sent r]) tr' \<Longrightarrow> no_auth tr tr'"
  by (rule no_auth_trans [OF no_auth_sent])

lemma submit_no_auth: "no_auth tr (snd (snd (submit w p tr data)))"
  by (auto simp: submit_def send_def no_auth_refl no_auth_sent split: sum.splits outcome.splits)

lemma upload_step3_no_auth: "no_auth tr (snd (upload_step3 w tr fn mt c a f))"
  by (auto simp: upload_step3_def send_def no_auth_refl no_auth_sent
           split: sum.splits outcome.splits)

lemma upload_step2_no_auth: "no_auth tr (snd (upload_step2 w tr u fn mt a f))"
  by (auto simp: upload_step2_def send_def no_auth_sent
           intro: no_auth_after_sent upload_step3_no_auth split: outcome.splits)

lemma upload_media_no_auth: "no_auth tr (snd (upload_media w p tr media))"
  by (auto simp: upload_media_def send_def Let_def no_auth_refl no_auth_sent
           intro: no_auth_after_sent upload_step2_no_auth
           split: json.splits sum.splits outcome.splits)

lemma media_submit_no_auth:
  "no_auth tr (snd (snd (media_submit w p tr sr title media txt fl)))"
proof (cases "upload_media w p tr media")
  case (Pair uploaded_url tr1)
  then have 1: "no_auth tr tr1" using upload_media_no_auth [of tr w p media] by simp
  have 2: "no_auth tr1 (snd (snd (submit w p tr1 d)))" for d by (rule submit_no_auth)
  show ?thesis
    using Pair 1 no_auth_trans [OF 1 2]
    by (auto simp: media_submit_def split: json.splits)
qed

lemma lazy_auth_shape:
  assumes "\<And>p' tr'. no_auth tr' (snd (snd (body p' tr')))"
  shows "lazy_auth_contract w p tr
     (if \<not> truthy (access_token p) then
        (case authenticate w p tr of
           (ok, p1, tr1) \<Rightarrow> if \<not> ok then (JNull, p1, tr1) else body p1 tr1)
      else body p tr)"
proof (cases "truthy (access_token p)")
  case True
  then show ?thesis
    using assms [of tr p] by (cases "body p tr") (simp add: lazy_auth_contract_def)
next
  case False
  obtain ok p1 tr1 where a: "authenticate w p tr = (ok, p1, tr1)"
    by (cases "authenticate w p tr") auto
  with authenticate_events [of w p tr]
  have ev: "tr1 = tr @ [Authenticate_called] \<or>
            tr1 = tr @ [Authenticate_called, Sent (token_request p)]" by simp
  show ?thesis
  proof (cases ok)
    case False
    with \<open>\<not> truthy (access_token p)\<close> a ev show ?thesis
      by (auto simp: lazy_auth_contract_def auth_once_first_def only_auth_events_def
            extends_def new_events_def auth_attempts_def)
  next
    case True
    obtain res p2 tr2 where b: "body p1 tr1 = (res, p2, tr2)"
      by (cases "body p1 tr1") auto
    with assms [of tr1 p1] obtain evs where
      evs: "tr2 = tr1 @ evs" "Authenticate_called \<notin> set evs"
      by (auto simp: no_auth_iff)
    from ev evs have "auth_once_first tr tr2"
      by (auto simp: auth_once_first_def extends_def new_events_def auth_attempts_def
            filter_empty_conv)
    with \<open>\<not> truthy (access_token p)\<close> a True b show ?thesis
      by (simp add: lazy_auth_contract_def)
  qed
qed

section \<open>Authentication on demand\<close>

text \<open>
  Claim C1, on the truth value of the stored token, which is what lines 142, 207 and 356
  test. For \<^verbatim>\<open>post_text\<close>, \<^verbatim>\<open>post_link\<close> and
      \<^verbatim>\<open>post_media\<close>: when the stored token is
  null (or empty, or otherwise falsy) exactly one call of \<^verbatim>\<open>authenticate\<close>
      is made and
  it is the first thing that happens; when that call returns false the operation
  returns \<^verbatim>\<open>None\<close> and the only request that can have been sent is the
      token request
  of the attempt itself; when the stored token is truthy (not null and not empty) no
  call of \<^verbatim>\<open>authenticate\<close> is made.
\<close>

theorem submission_authenticates_lazily:
  "lazy_auth_contract w p tr (post_text w p tr subreddit title body_text flair_id) \<and>
   lazy_auth_contract w p tr (post_link w p tr subreddit title url body_text flair_id) \<and>
   lazy_auth_contract w p tr (post_media w p tr subreddit title media body_text flair_id)"
  unfolding post_text_def post_link_def post_media_def
  by (intro conjI lazy_auth_shape submit_no_auth media_submit_no_auth)

theorem submission_authenticates_lazily_witness:
  "access_token demo_poster = JNull \<and>
   \<not> fst (authenticate (constant_world Raises) demo_poster []) \<and>
   fst (post_text (constant_world Raises) demo_poster []
          (JStr ''test'') (JStr ''T'') (JStr ''hi'') JNull) = JNull \<and>
   only_auth_events demo_poster []
     (snd (snd (post_text (constant_world Raises) demo_poster []
          (JStr ''test'') (JStr ''T'') (JStr ''hi'') JNull))) \<and>
   auth_once_first []
     (snd (snd (post_media (constant_world Raises) demo_poster []
          (JStr ''test'') (JStr ''T'') (JStr ''http://h/a.jpg'') (JStr ''hi'') JNull))) \<and>
   truthy (access_token (demo_poster\<lparr>access_token := JStr ''tok''\<rparr>)) \<and>
   no_auth []
     (snd (snd (post_link (constant_world Raises) (demo_poster\<lparr>access_token := JStr
         ''tok''\<rparr>) []
          (JStr ''test'') (JStr ''T'') (JStr ''http://h/'') (JStr ''hi'') JNull)))"
proof -
  have h1: "access_token demo_poster = JNull"
    by (simp add: demo_poster_def new_poster_def)
  have h2: "\<not> fst (authenticate (constant_world Raises) demo_poster [])"
    by (simp add: authenticate_sent [OF demo_ascii] constant_world_def)
  have h3: "truthy (access_token (demo_poster\<lparr>access_token := JStr ''tok''\<rparr>))"
    by simp
  from h1 h2
    submission_authenticates_lazily [of "constant_world Raises" demo_poster "[]"
      "JStr ''test''" "JStr ''T''" "JStr ''hi''" JNull "JStr ''http://h/''"
      "JStr ''http://h/a.jpg''"]
  have a: "fst (post_text (constant_world Raises) demo_poster []
          (JStr ''test'') (JStr ''T'') (JStr ''hi'') JNull) = JNull \<and>
   only_auth_events demo_poster []
     (snd (snd (post_text (constant_world Raises) demo_poster []
          (JStr ''test'') (JStr ''T'') (JStr ''hi'') JNull))) \<and>
   auth_once_first []
     (snd (snd (post_media (constant_world Raises) demo_poster []
          (JStr ''test'') (JStr ''T'') (JStr ''http://h/a.jpg'') (JStr ''hi'') JNull)))"
    by (simp add: lazy_auth_contract_def case_prod_unfold)
  from h3
    submission_authenticates_lazily [of "constant_world Raises"
      "demo_poster\<lparr>access_token := JStr ''tok''\<rparr>" "[]"
      "JStr ''test''" "JStr ''T''" "JStr ''hi''" JNull "JStr ''http://h/''"
      "JStr ''http://h/a.jpg''"]
  have b: "no_auth []
     (snd (snd (post_link (constant_world Raises) (demo_poster\<lparr>access_token := JStr
         ''tok''\<rparr>) []
          (JStr ''test'') (JStr ''T'') (JStr ''http://h/'') (JStr ''hi'') JNull)))"
    by (simp add: lazy_auth_contract_def case_prod_unfold)
  from h1 h2 h3 a b show ?thesis by blast
qed

text \<open>
  The claim as stated, that a token that is not null means no authentication attempt,
  fails for the empty string: it is not null, the test \<^verbatim>\<open>not
      self.access_token\<close> takes
  it as absent, and \<^verbatim>\<open>authenticate\<close> is called.
\<close>

theorem nonnull_empty_token_counterexample:
  "access_token (demo_poster\<lparr>access_token := JStr []\<rparr>) \<noteq> JNull \<and>
   snd (snd (post_text (constant_world Raises) (demo_poster\<lparr>access_token := JStr
       []\<rparr>) []
          (JStr ''test'') (JStr ''T'') (JStr ''hi'') JNull)) =
     [Authenticate_called, Sent (token_request (demo_poster\<lparr>access_token := JStr
         []\<rparr>))] \<and>
   auth_attempts
     (snd (snd (post_text (constant_world Raises) (demo_poster\<lparr>access_token := JStr
         []\<rparr>) []
          (JStr ''test'') (JStr ''T'') (JStr ''hi'') JNull))) = 1"
proof -
  have a: "is_ascii (client_id (demo_poster\<lparr>access_token := JStr []\<rparr>) @ '':'' @
                     client_secret (demo_poster\<lparr>access_token := JStr []\<rparr>))"
    using demo_ascii by simp
  show ?thesis
    by (simp add: post_text_def authenticate_sent [OF a] constant_world_def auth_attempts_def)
qed

section \<open>The lease step\<close>

lemma upload_step2_starts_with_fetch:
  "\<exists>rest. snd (upload_step2 w tr u fn mt a f) = tr @ Sent (fetch_request u) # rest"
proof -
  have "no_auth (tr @ [Sent (fetch_request u)]) (snd (upload_step3 w (tr @ [Sent (fetch_request
      u)]) fn mt c a f))" for c
    by (rule upload_step3_no_auth)
  then have "\<exists>rest. snd (upload_step3 w (tr @ [Sent (fetch_request u)]) fn mt c a f)
      = tr @ Sent (fetch_request u) # rest" for c
    by (auto simp: no_auth_iff)
  then show ?thesis
    by (auto simp: upload_step2_def send_def split: outcome.splits)
qed

lemma upload_media_lease:
  assumes "get_headers p = Inr hdrs"
    and "network w tr (lease_request w hdrs u) = Responds r"
  shows "upload_media w p tr (JStr u) =
     (if status_code r = 200 \<and> lease_usable r then
        upload_step2 w (tr @ [Sent (lease_request w hdrs u)]) u (media_filename u)
          (media_mime_type w (media_filename u))
          (fst (projr (lease_args r))) (snd (projr (lease_args r)))
      else (JNull, tr @ [Sent (lease_request w hdrs u)]))"
  using assms
  by (auto simp: upload_media_def send_def Let_def lease_usable_def split: sum.splits)

lemma demo_headers: "get_headers authed_poster = Inr authed_headers"
  by (simp add: get_headers_def authed_poster_def authed_headers_def demo_poster_def
        new_poster_def py_lower_def lower_char_def upper_char_def)


lemma lease_usable_iff:
  "lease_usable r =
     (\<exists>kvs args. body_json r = Some (JObj kvs) \<and>
        dict_get kvs ''args'' (JObj []) = JObj args \<and>
        truthy (dict_get args ''action'' JNull) \<and>
        truthy (dict_get args ''fields'' (JArr [])))"
  by (auto simp: lease_usable_def lease_args_def split: option.splits json.splits)

text \<open>
  Claim C3, as the code has it. With the headers at hand and a response \<open>r\<close> to the
      lease
  request: the upload goes on to the download (the next request is the fetch of the media
  URL) exactly when the status is 200 and the lease is usable, that is the body is a JSON
  object whose \<^verbatim>\<open>args\<close> is an object with a truthy
      \<^verbatim>\<open>action\<close> and a truthy (non-empty)
  \<^verbatim>\<open>fields\<close>; in every other case the lease step fails:
      \<^verbatim>\<open>None\<close> is returned and the
  lease request is the only request made. So the step fails when the status is not 200 or
  when either of \<^verbatim>\<open>action\<close> and \<^verbatim>\<open>fields\<close> is
      missing.
\<close>

theorem lease_step_outcome:
  "(get_headers p = Inr hdrs \<and> network w tr (lease_request w hdrs u) = Responds r
      \<longrightarrow>
      (if status_code r = 200 \<and> lease_usable r then
         (\<exists>rest. snd (upload_media w p tr (JStr u)) =
            tr @ Sent (lease_request w hdrs u) # Sent (fetch_request u) # rest)
       else upload_media w p tr (JStr u) = (JNull, tr @ [Sent (lease_request w hdrs u)]))) \<and>
   lease_usable r =
     (\<exists>kvs args. body_json r = Some (JObj kvs) \<and>
        dict_get kvs ''args'' (JObj []) = JObj args \<and>
        truthy (dict_get args ''action'' JNull) \<and>
        truthy (dict_get args ''fields'' (JArr [])))"
proof (intro conjI impI)
  assume a: "get_headers p = Inr hdrs \<and> network w tr (lease_request w hdrs u) = Responds r"
  then have e: "upload_media w p tr (JStr u) =
     (if status_code r = 200 \<and> lease_usable r then
        upload_step2 w (tr @ [Sent (lease_request w hdrs u)]) u (media_filename u)
          (media_mime_type w (media_filename u))
          (fst (projr (lease_args r))) (snd (projr (lease_args r)))
      else (JNull, tr @ [Sent (lease_request w hdrs u)]))"
    by (intro upload_media_lease) simp_all
  show "if status_code r = 200 \<and> lease_usable r then
         (\<exists>rest. snd (upload_media w p tr (JStr u)) =
            tr @ Sent (lease_request w hdrs u) # Sent (fetch_request u) # rest)
       else upload_media w p tr (JStr u) = (JNull, tr @ [Sent (lease_request w hdrs u)])"
  proof (cases "status_code r = 200 \<and> lease_usable r")
    case True
    from upload_step2_starts_with_fetch
    obtain rest where "snd (upload_step2 w (tr @ [Sent (lease_request w hdrs u)]) u
        (media_filename u)
          (media_mime_type w (media_filename u))
          (fst (projr (lease_args r))) (snd (projr (lease_args r)))) =
        (tr @ [Sent (lease_request w hdrs u)]) @ Sent (fetch_request u) # rest"
      by blast
    with True e show ?thesis by simp
  next
    case False
    with e show ?thesis by auto
  qed
next
  show "lease_usable r =
     (\<exists>kvs args. body_json r = Some (JObj kvs) \<and>
        dict_get kvs ''args'' (JObj []) = JObj args \<and>
        truthy (dict_get args ''action'' JNull) \<and>
        truthy (dict_get args ''fields'' (JArr [])))"
    by (rule lease_usable_iff)
qed

text \<open>
  The claim as stated, that a 200 lease response stops the upload only when it lacks both
  \<^verbatim>\<open>action\<close> and a non-empty \<^verbatim>\<open>fields\<close>, fails on a
      response that has an \<^verbatim>\<open>action\<close>
  and an empty \<^verbatim>\<open>fields\<close> list: it does not lack both, and the step fails.
\<close>

theorem lease_with_action_only_counterexample:
  "status_code \<lparr> status_code = 200, resp_body = [],
       body_json = Some (JObj [(''args'', JObj [(''action'', JStr ''//bucket.s3/amazon''),
           (''fields'', JArr [])])]) \<rparr> = 200 \<and>
   \<not> lease_lacks_both \<lparr> status_code = 200, resp_body = [],
       body_json = Some (JObj [(''args'', JObj [(''action'', JStr ''//bucket.s3/amazon''),
           (''fields'', JArr [])])]) \<rparr> \<and>
   upload_media
     (constant_world (json_reply 200
        (JObj [(''args'', JObj [(''action'', JStr ''//bucket.s3/amazon''), (''fields'', JArr
            [])])])))
     authed_poster [] (JStr ''http://h/a.jpg'') =
   (JNull,
    [Sent (lease_request
       (constant_world (json_reply 200
          (JObj [(''args'', JObj [(''action'', JStr ''//bucket.s3/amazon''), (''fields'', JArr
              [])])])))
       authed_headers ''http://h/a.jpg'')])"
proof -
  have "network (constant_world (json_reply 200 j)) [] q = json_reply 200 j" for j q
    by (simp add: constant_world_def)
  then show ?thesis
    using upload_media_lease [OF demo_headers, of
      "constant_world (json_reply 200
        (JObj [(''args'', JObj [(''action'', JStr ''//bucket.s3/amazon''), (''fields'', JArr
            [])])]))"
      "[]" "''http://h/a.jpg''"]
    by (simp add: json_reply_def lease_usable_def lease_lacks_both_def lease_args_def
        dict_get_def)
qed


theorem lease_step_outcome_witness:
  "get_headers authed_poster = Inr authed_headers \<and>
   upload_media (constant_world (text_reply 503 ''busy'')) authed_poster [] (JStr
       ''http://h/a.jpg'') =
     (JNull,
      [Sent (lease_request (constant_world (text_reply 503 ''busy'')) authed_headers
               ''http://h/a.jpg'')]) \<and>
   lease_reply = Responds \<lparr> status_code = 200, resp_body = [],
       body_json = Some (JObj [(''args'',
               JObj [(''action'', JStr ''//bucket.s3/amazon''),
                     (''fields'',
                      JArr [JObj [(''name'', JStr ''a''), (''value'', JStr ''1'')]])])]) \<rparr>
                          \<and>
   (\<exists>rest. snd (upload_media (media_world lease_reply Raises Raises) authed_poster []
                   (JStr ''http://h/a.jpg'')) =
      [] @ Sent (lease_request (media_world lease_reply Raises Raises) authed_headers
                  ''http://h/a.jpg'')
         # Sent (fetch_request ''http://h/a.jpg'') # rest)"
proof -
  have n1: "network (constant_world (text_reply 503 ''busy'')) []
      (lease_request (constant_world (text_reply 503 ''busy'')) authed_headers ''http://h/a.jpg'')
          =
      Responds \<lparr> status_code = 503, resp_body = ''busy'', body_json = None \<rparr>"
    by (simp add: constant_world_def text_reply_def)
  have l: "lease_reply = Responds \<lparr> status_code = 200, resp_body = [],
       body_json = Some (JObj [(''args'',
               JObj [(''action'', JStr ''//bucket.s3/amazon''),
                     (''fields'',
                      JArr [JObj [(''name'', JStr ''a''), (''value'', JStr ''1'')]])])]) \<rparr>"
    by (simp add: lease_reply_def json_reply_def)
  have n2: "network (media_world lease_reply Raises Raises) []
      (lease_request (media_world lease_reply Raises Raises) authed_headers ''http://h/a.jpg'') =
      Responds \<lparr> status_code = 200, resp_body = [],
       body_json = Some (JObj [(''args'',
               JObj [(''action'', JStr ''//bucket.s3/amazon''),
                     (''fields'',
                      JArr [JObj [(''name'', JStr ''a''), (''value'', JStr ''1'')]])])]) \<rparr>"
    by (simp add: media_world_def lease_request_def l)
  have 1: "upload_media (constant_world (text_reply 503 ''busy'')) authed_poster []
      (JStr ''http://h/a.jpg'') =
     (JNull,
      [Sent (lease_request (constant_world (text_reply 503 ''busy'')) authed_headers
               ''http://h/a.jpg'')])"
    using demo_headers n1
      lease_step_outcome [of authed_poster authed_headers
        "constant_world (text_reply 503 ''busy'')" "[]" "''http://h/a.jpg''"
        "\<lparr> status_code = 503, resp_body = ''busy'', body_json = None \<rparr>"]
    by simp
  have 2: "\<exists>rest. snd (upload_media (media_world lease_reply Raises Raises) authed_poster
      []
                   (JStr ''http://h/a.jpg'')) =
      [] @ Sent (lease_request (media_world lease_reply Raises Raises) authed_headers
                  ''http://h/a.jpg'')
         # Sent (fetch_request ''http://h/a.jpg'') # rest"
    using demo_headers n2
      lease_step_outcome [of authed_poster authed_headers
        "media_world lease_reply Raises Raises" "[]" "''http://h/a.jpg''"
        "\<lparr> status_code = 200, resp_body = [],
       body_json = Some (JObj [(''args'',
               JObj [(''action'', JStr ''//bucket.s3/amazon''),
                     (''fields'',
                      JArr [JObj [(''name'', JStr ''a''), (''value'', JStr ''1'')]])])])
                          \<rparr>"]
    by (simp add: lease_usable_def lease_args_def dict_get_def)
  from demo_headers 1 l 2 show ?thesis by blast
qed

section \<open>The upload sequence\<close>

lemma media_submit_upload_failed:
  "upload_media w p tr media = (JNull, tr') \<Longrightarrow>
   media_submit w p tr sr title media txt fl = (JNull, p, tr')"
  by (simp add: media_submit_def)

text \<open>
  Claim C7. In \<^verbatim>\<open>_upload_media\<close>, with the headers at hand: a lease
      response with a
  status other than 200 ends the operation with \<^verbatim>\<open>None\<close> after the lease
      request alone
  (no fetch, no upload); after a usable lease, a fetch response with a status other than
  200 ends it after the lease and the fetch (no upload); after both, an upload response
  with a status other than 200 ends it after the three requests. In each case
  \<^verbatim>\<open>post_media\<close>'s body returns \<^verbatim>\<open>None\<close> as well and
      sends no submission.
\<close>

theorem upload_stops_at_first_failure:
  "(get_headers p = Inr hdrs \<and>
    network w tr (lease_request w hdrs u) = Responds r1 \<and> status_code r1 \<noteq> 200
      \<longrightarrow> upload_media w p tr (JStr u) = (JNull, tr @ [Sent (lease_request w hdrs
          u)]) \<and>
          media_submit w p tr sr title (JStr u) txt fl =
            (JNull, p, tr @ [Sent (lease_request w hdrs u)])) \<and>
   (get_headers p = Inr hdrs \<and>
    network w tr (lease_request w hdrs u) = Responds r1 \<and> status_code r1 = 200 \<and>
    lease_args r1 = Inr (action, lease_fields) \<and> truthy action \<and> truthy lease_fields
        \<and>
    network w (tr @ [Sent (lease_request w hdrs u)]) (fetch_request u) = Responds r2 \<and>
    status_code r2 \<noteq> 200
      \<longrightarrow> upload_media w p tr (JStr u) =
            (JNull, tr @ [Sent (lease_request w hdrs u), Sent (fetch_request u)]) \<and>
          media_submit w p tr sr title (JStr u) txt fl =
            (JNull, p, tr @ [Sent (lease_request w hdrs u), Sent (fetch_request u)])) \<and>
   (get_headers p = Inr hdrs \<and>
    network w tr (lease_request w hdrs u) = Responds r1 \<and> status_code r1 = 200 \<and>
    lease_args r1 = Inr (action, lease_fields) \<and> truthy action \<and> truthy lease_fields
        \<and>
    network w (tr @ [Sent (lease_request w hdrs u)]) (fetch_request u) = Responds r2 \<and>
    status_code r2 = 200 \<and>
    build_upload_data lease_fields = Inr upload_data \<and>
    network w (tr @ [Sent (lease_request w hdrs u), Sent (fetch_request u)])
      (upload_request action upload_data (media_filename u) (resp_body r2)
         (media_mime_type w (media_filename u))) = Responds r3 \<and>
    status_code r3 \<noteq> 200
      \<longrightarrow> upload_media w p tr (JStr u) =
            (JNull, tr @ [Sent (lease_request w hdrs u), Sent (fetch_request u),
                          Sent (upload_request action upload_data (media_filename u)
                                  (resp_body r2) (media_mime_type w (media_filename u)))]) \<and>
          media_submit w p tr sr title (JStr u) txt fl =
            (JNull, p, tr @ [Sent (lease_request w hdrs u), Sent (fetch_request u),
                          Sent (upload_request action upload_data (media_filename u)
                                  (resp_body r2) (media_mime_type w (media_filename u)))]))"
proof (intro conjI impI)
  assume a: "get_headers p = Inr hdrs \<and>
    network w tr (lease_request w hdrs u) = Responds r1 \<and> status_code r1 \<noteq> 200"
  then show 1: "upload_media w p tr (JStr u) = (JNull, tr @ [Sent (lease_request w hdrs u)])"
    by (simp add: upload_media_def send_def Let_def)
  then show "media_submit w p tr sr title (JStr u) txt fl =
            (JNull, p, tr @ [Sent (lease_request w hdrs u)])"
    by (rule media_submit_upload_failed)
next
  assume a: "get_headers p = Inr hdrs \<and>
    network w tr (lease_request w hdrs u) = Responds r1 \<and> status_code r1 = 200 \<and>
    lease_args r1 = Inr (action, lease_fields) \<and> truthy action \<and> truthy lease_fields
        \<and>
    network w (tr @ [Sent (lease_request w hdrs u)]) (fetch_request u) = Responds r2 \<and>
    status_code r2 \<noteq> 200"
  then show 1: "upload_media w p tr (JStr u) =
            (JNull, tr @ [Sent (lease_request w hdrs u), Sent (fetch_request u)])"
    by (simp add: upload_media_def upload_step2_def send_def Let_def)
  then show "media_submit w p tr sr title (JStr u) txt fl =
            (JNull, p, tr @ [Sent (lease_request w hdrs u), Sent (fetch_request u)])"
    by (rule media_submit_upload_failed)
next
  assume a: "get_headers p = Inr hdrs \<and>
    network w tr (lease_request w hdrs u) = Responds r1 \<and> status_code r1 = 200 \<and>
    lease_args r1 = Inr (action, lease_fields) \<and> truthy action \<and> truthy lease_fields
        \<and>
    network w (tr @ [Sent (lease_request w hdrs u)]) (fetch_request u) = Responds r2 \<and>
    status_code r2 = 200 \<and>
    build_upload_data lease_fields = Inr upload_data \<and>
    network w (tr @ [Sent (lease_request w hdrs u), Sent (fetch_request u)])
      (upload_request action upload_data (media_filename u) (resp_body r2)
         (media_mime_type w (media_filename u))) = Responds r3 \<and>
    status_code r3 \<noteq> 200"
  then show 1: "upload_media w p tr (JStr u) =
            (JNull, tr @ [Sent (lease_request w hdrs u), Sent (fetch_request u),
                          Sent (upload_request action upload_data (media_filename u)
                                  (resp_body r2) (media_mime_type w (media_filename u)))])"
    by (simp add: upload_media_def upload_step2_def upload_step3_def send_def Let_def)
  then show "media_submit w p tr sr title (JStr u) txt fl =
            (JNull, p, tr @ [Sent (lease_request w hdrs u), Sent (fetch_request u),
                          Sent (upload_request action upload_data (media_filename u)
                                  (resp_body r2) (media_mime_type w (media_filename u)))])"
    by (rule media_submit_upload_failed)
qed


lemma demo_filename: "media_filename ''http://h/a.jpg'' = ''a.jpg''"
  by (simp add: media_filename_def)

lemma demo_mime: "media_mime_type (media_world a b c) ''a.jpg'' = ''image/jpeg''"
  by (simp add: media_mime_type_def media_world_def py_endswith_def)

lemma demo_lease_args:
  "lease_args \<lparr> status_code = 200, resp_body = [], body_json = Some (JObj [(''args'', JObj
      [(''action'', JStr ''//bucket.s3/amazon''), (''fields'', JArr [JObj [(''name'', JStr ''a''),
      (''value'', JStr ''1'')]])])]) \<rparr> = Inr (JStr ''//bucket.s3/amazon'', JArr [JObj
      [(''name'', JStr ''a''), (''value'', JStr ''1'')]])"
  by (simp add: lease_args_def dict_get_def)

lemma demo_upload_data: "build_upload_data (JArr [JObj [(''name'', JStr ''a''), (''value'', JStr
    ''1'')]]) = Inr [(JStr ''a'', JStr ''1'')]"
  by (simp add: build_upload_data_def iterate_def field_item_def)

lemma demo_lease_reply: "lease_reply = Responds \<lparr> status_code = 200, resp_body = [],
    body_json = Some (JObj [(''args'', JObj [(''action'', JStr ''//bucket.s3/amazon''),
    (''fields'', JArr [JObj [(''name'', JStr ''a''), (''value'', JStr ''1'')]])])]) \<rparr>"
  by (simp add: lease_reply_def json_reply_def)

theorem upload_stops_at_first_failure_witness:
  "get_headers authed_poster = Inr authed_headers \<and>
   upload_media (media_world (text_reply 503 ''busy'') Raises Raises) authed_poster [] (JStr
       ''http://h/a.jpg'') = (JNull, [Sent (lease_request (media_world (text_reply 503 ''busy'')
       Raises Raises) authed_headers ''http://h/a.jpg'')]) \<and>
   upload_media (media_world lease_reply (text_reply 404 ''gone'') Raises) authed_poster [] (JStr
       ''http://h/a.jpg'') = (JNull, [Sent (lease_request (media_world lease_reply (text_reply 404
       ''gone'') Raises) authed_headers ''http://h/a.jpg''), Sent (fetch_request
       ''http://h/a.jpg'')]) \<and>
   upload_media (media_world lease_reply (text_reply 200 ''bytes'') (text_reply 403 ''denied''))
       authed_poster [] (JStr ''http://h/a.jpg'') = (JNull, [Sent (lease_request (media_world
       lease_reply (text_reply 200 ''bytes'') (text_reply 403 ''denied'')) authed_headers
       ''http://h/a.jpg''), Sent (fetch_request ''http://h/a.jpg''), Sent (upload_request (JStr
       ''//bucket.s3/amazon'') [(JStr ''a'', JStr ''1'')] ''a.jpg'' ''bytes'' ''image/jpeg'')])"
proof -
  have 1: "upload_media (media_world (text_reply 503 ''busy'') Raises Raises) authed_poster []
      (JStr ''http://h/a.jpg'') = (JNull, [Sent (lease_request (media_world (text_reply 503
      ''busy'') Raises Raises) authed_headers ''http://h/a.jpg'')])"
    using demo_headers
      upload_stops_at_first_failure [where p = authed_poster
        and hdrs = authed_headers
        and w = "media_world (text_reply 503 ''busy'') Raises Raises"
        and tr = "[]"
        and u = "''http://h/a.jpg''"
        and ?r1.0 = "\<lparr> status_code = 503, resp_body = ''busy'', body_json = None \<rparr>"]
    by (simp add: media_world_def lease_request_def text_reply_def)
  have 2: "upload_media (media_world lease_reply (text_reply 404 ''gone'') Raises) authed_poster
      [] (JStr ''http://h/a.jpg'') = (JNull, [Sent (lease_request (media_world lease_reply
      (text_reply 404 ''gone'') Raises) authed_headers ''http://h/a.jpg''), Sent (fetch_request
      ''http://h/a.jpg'')])"
    using demo_headers demo_lease_args
      upload_stops_at_first_failure [where p = authed_poster
        and hdrs = authed_headers
        and w = "media_world lease_reply (text_reply 404 ''gone'') Raises"
        and tr = "[]"
        and u = "''http://h/a.jpg''"
        and ?r1.0 = "\<lparr> status_code = 200, resp_body = [], body_json = Some (JObj
            [(''args'', JObj [(''action'', JStr ''//bucket.s3/amazon''), (''fields'', JArr [JObj
            [(''name'', JStr ''a''), (''value'', JStr ''1'')]])])]) \<rparr>"
        and action = "JStr ''//bucket.s3/amazon''"
        and lease_fields = "JArr [JObj [(''name'', JStr ''a''), (''value'', JStr ''1'')]]"
        and ?r2.0 = "\<lparr> status_code = 404, resp_body = ''gone'', body_json = None \<rparr>"]
    by (simp add: media_world_def lease_request_def fetch_request_def text_reply_def
          demo_lease_reply)
  have 3: "upload_media (media_world lease_reply (text_reply 200 ''bytes'') (text_reply 403
      ''denied'')) authed_poster [] (JStr ''http://h/a.jpg'') = (JNull, [Sent (lease_request
      (media_world lease_reply (text_reply 200 ''bytes'') (text_reply 403 ''denied''))
      authed_headers ''http://h/a.jpg''), Sent (fetch_request ''http://h/a.jpg''), Sent
      (upload_request (JStr ''//bucket.s3/amazon'') [(JStr ''a'', JStr ''1'')] ''a.jpg'' ''bytes''
      ''image/jpeg'')])"
    using demo_headers demo_lease_args demo_upload_data
      upload_stops_at_first_failure [where p = authed_poster
        and hdrs = authed_headers
        and w = "media_world lease_reply (text_reply 200 ''bytes'') (text_reply 403 ''denied'')"
        and tr = "[]"
        and u = "''http://h/a.jpg''"
        and ?r1.0 = "\<lparr> status_code = 200, resp_body = [], body_json = Some (JObj
            [(''args'', JObj [(''action'', JStr ''//bucket.s3/amazon''), (''fields'', JArr [JObj
            [(''name'', JStr ''a''), (''value'', JStr ''1'')]])])]) \<rparr>"
        and action = "JStr ''//bucket.s3/amazon''"
        and lease_fields = "JArr [JObj [(''name'', JStr ''a''), (''value'', JStr ''1'')]]"
        and ?r2.0 = "\<lparr> status_code = 200, resp_body = ''bytes'', body_json = None \<rparr>"
        and upload_data = "[(JStr ''a'', JStr ''1'')]"
        and ?r3.0 = "\<lparr> status_code = 403, resp_body = ''denied'', body_json = None
            \<rparr>"]
    by (simp add: media_world_def lease_request_def fetch_request_def upload_request_def
          text_reply_def demo_lease_reply demo_filename media_mime_type_def py_endswith_def)
  from demo_headers 1 2 3 show ?thesis by blast
qed

section \<open>The location of the uploaded media\<close>

lemma upload_media_answered:
  assumes "upload_answered w p tr u hdrs action upload_data content upload_body"
  shows "upload_media w p tr (JStr u) =
     (extract_location upload_body, tr @ upload_history w hdrs u action upload_data content)"
  using assms
  by (auto simp: upload_answered_def upload_media_def upload_step2_def upload_step3_def
        send_def Let_def upload_history_def
      split: outcome.splits sum.splits)

lemma headers_token: "get_headers p = Inr hdrs \<Longrightarrow> truthy (access_token p)"
  by (auto simp: get_headers_def split: if_splits)

lemma submit_with_headers:
  "get_headers p = Inr hdrs \<Longrightarrow>
   \<exists>res. submit w p tr d = (res, p, tr @ [Sent (submit_request hdrs d)])"
  by (auto simp: submit_def send_def split: outcome.splits)

lemma post_media_answered:
  assumes "upload_answered w p tr u hdrs action upload_data content upload_body"
  shows "post_media w p tr sr title (JStr u) txt fl =
     (if truthy (extract_location upload_body) then
        submit w p (tr @ upload_history w hdrs u action upload_data content)
          (media_data sr title (extract_location upload_body) (media_kind u) txt fl)
      else (JNull, p, tr @ upload_history w hdrs u action upload_data content))"
proof -
  from assms have h: "get_headers p = Inr hdrs" by (simp add: upload_answered_def)
  then have "truthy (access_token p)" by (rule headers_token)
  then show ?thesis
    by (simp add: post_media_def media_submit_def upload_media_answered [OF assms])
qed

lemma demo_upload_answered:
  "upload_answered (upload_world b) authed_poster [] ''http://h/a.jpg'' authed_headers
     (JStr ''//bucket.s3/amazon'') [(JStr ''a'', JStr ''1'')] ''bytes'' b"
  using demo_lease_args
  by (simp add: upload_answered_def upload_world_def demo_headers media_world_def
        lease_request_def fetch_request_def upload_request_def text_reply_def
        demo_lease_reply demo_upload_data)


text \<open>
  Claim C2, as the code has it. When \<^verbatim>\<open>_upload_media\<close> reaches its location
      step (the
  lease, the download and the upload were answered with status 200), its result is
  decided by the body of the upload response: \<^verbatim>\<open>None\<close> when
      \<^verbatim>\<open><Location>\<close> does not
  occur in it; exactly the text \<open>m\<close> strictly between the first
      \<^verbatim>\<open><Location>\<close> and the
  first \<^verbatim>\<open></Location>\<close> when the closing tag comes first right after
      \<open>m\<close>, that is
  after the opening tag; the empty string when the first \<^verbatim>\<open></Location>\<close>
      starts before
  the end of the first \<^verbatim>\<open><Location>\<close>; and
      \<^verbatim>\<open>https://cdn/x.jpg\<close> for the body of the
  specification's example. A body with the opening tag and no closing tag is the subject
  of claim C9.
\<close>

theorem upload_location_between_tags:
  "upload_answered w p tr u hdrs action upload_data content upload_body \<longrightarrow>
     (\<not> occurs ''<Location>'' upload_body \<longrightarrow>
        upload_media w p tr (JStr u) = (JNull, tr @ upload_history w hdrs u action upload_data
            content)) \<and>
     (upload_body = pre @ ''<Location>'' @ m @ ''</Location>'' @ r \<and>
      first_at ''<Location>'' upload_body (length pre) \<and>
      first_at ''</Location>'' upload_body (length pre + 10 + length m) \<longrightarrow>
        upload_media w p tr (JStr u) = (JStr m, tr @ upload_history w hdrs u action upload_data
            content)) \<and>
     (first_at ''<Location>'' upload_body i \<and> first_at ''</Location>'' upload_body j \<and>
      j < i + 10 \<longrightarrow>
        upload_media w p tr (JStr u) = (JStr [], tr @ upload_history w hdrs u action upload_data
            content)) \<and>
     (upload_body = ''<PostResponse><Location>https://cdn/x.jpg</Location></PostResponse>''
         \<longrightarrow>
        upload_media w p tr (JStr u) = (JStr ''https://cdn/x.jpg'', tr @ upload_history w hdrs u
            action upload_data content))"
proof (intro impI conjI)
  assume a: "upload_answered w p tr u hdrs action upload_data content upload_body"
  note e = upload_media_answered [OF a]
  {
    assume "\<not> occurs ''<Location>'' upload_body"
    then show "upload_media w p tr (JStr u) = (JNull, tr @ upload_history w hdrs u action
        upload_data content)"
      by (simp add: e extract_no_open)
  }
  {
    assume b: "upload_body = pre @ ''<Location>'' @ m @ ''</Location>'' @ r \<and>
      first_at ''<Location>'' upload_body (length pre) \<and>
      first_at ''</Location>'' upload_body (length pre + 10 + length m)"
    then have "extract_location upload_body = JStr m"
      by (intro extract_between [of upload_body pre m r]) blast+
    then show "upload_media w p tr (JStr u) = (JStr m, tr @ upload_history w hdrs u action
        upload_data content)"
      by (simp add: e)
  }
  {
    assume b: "first_at ''<Location>'' upload_body i \<and>
      first_at ''</Location>'' upload_body j \<and> j < i + 10"
    then have "extract_location upload_body = JStr []"
      by (intro extract_close_early [of upload_body i j]) blast+
    then show "upload_media w p tr (JStr u) = (JStr [], tr @ upload_history w hdrs u action
        upload_data content)"
      by (simp add: e)
  }
  {
    assume "upload_body = ''<PostResponse><Location>https://cdn/x.jpg</Location></PostResponse>''"
    then show "upload_media w p tr (JStr u) = (JStr ''https://cdn/x.jpg'', tr @ upload_history w
        hdrs u action upload_data content)"
      by (simp only: e demo_location)
  }
qed

theorem upload_location_between_tags_witness:
  "upload_answered (upload_world ''<Error><Code>AccessDenied</Code></Error>'') authed_poster []
      ''http://h/a.jpg'' authed_headers
     (JStr ''//bucket.s3/amazon'') [(JStr ''a'', JStr ''1'')] ''bytes''
         ''<Error><Code>AccessDenied</Code></Error>'' \<and>
   \<not> occurs ''<Location>'' ''<Error><Code>AccessDenied</Code></Error>'' \<and>
   upload_media (upload_world ''<Error><Code>AccessDenied</Code></Error>'') authed_poster [] (JStr
       ''http://h/a.jpg'') = (JNull, upload_history (upload_world
       ''<Error><Code>AccessDenied</Code></Error>'') authed_headers ''http://h/a.jpg'' (JStr
       ''//bucket.s3/amazon'') [(JStr ''a'', JStr ''1'')] ''bytes'') \<and>
   first_at ''<Location>'' ''<a><Location>u</Location><Location>v</Location></a>'' 3 \<and>
   first_at ''</Location>'' ''<a><Location>u</Location><Location>v</Location></a>'' 14 \<and>
   upload_media (upload_world ''<a><Location>u</Location><Location>v</Location></a>'')
       authed_poster [] (JStr ''http://h/a.jpg'') = (JStr ''u'', upload_history (upload_world
       ''<a><Location>u</Location><Location>v</Location></a>'') authed_headers ''http://h/a.jpg''
       (JStr ''//bucket.s3/amazon'') [(JStr ''a'', JStr ''1'')] ''bytes'') \<and>
   first_at ''<Location>'' ''</Location><Location>x'' 11 \<and>
   first_at ''</Location>'' ''</Location><Location>x'' 0 \<and>
   upload_media (upload_world ''</Location><Location>x'') authed_poster [] (JStr
       ''http://h/a.jpg'') = (JStr [], upload_history (upload_world ''</Location><Location>x'')
       authed_headers ''http://h/a.jpg'' (JStr ''//bucket.s3/amazon'') [(JStr ''a'', JStr ''1'')]
       ''bytes'') \<and>
   upload_media (upload_world
       ''<PostResponse><Location>https://cdn/x.jpg</Location></PostResponse>'') authed_poster []
       (JStr ''http://h/a.jpg'') = (JStr ''https://cdn/x.jpg'', upload_history (upload_world
       ''<PostResponse><Location>https://cdn/x.jpg</Location></PostResponse>'') authed_headers
       ''http://h/a.jpg'' (JStr ''//bucket.s3/amazon'') [(JStr ''a'', JStr ''1'')] ''bytes'')"
proof -
  have n: "\<not> occurs ''<Location>'' ''<Error><Code>AccessDenied</Code></Error>''" by code_simp
  have f1: "first_at ''<Location>'' ''<a><Location>u</Location><Location>v</Location></a>'' 3" by
      code_simp
  have f2: "first_at ''</Location>'' ''<a><Location>u</Location><Location>v</Location></a>'' 14"
      by code_simp
  have l1: "length ''<a>'' = 3" and l2: "length ''<a>'' + 10 + length ''u'' = 14"
    by simp_all
  have d: "''<a><Location>u</Location><Location>v</Location></a>'' = ''<a>'' @ ''<Location>'' @
      ''u'' @ ''</Location>'' @ ''<Location>v</Location></a>''"
    by simp
  have h2: "first_at ''<Location>'' ''<a><Location>u</Location><Location>v</Location></a>''
      (length ''<a>'')"
    by (simp only: l1 f1)
  have h3: "first_at ''</Location>'' ''<a><Location>u</Location><Location>v</Location></a>''
      (length ''<a>'' + 10 + length ''u'')"
    by (simp only: l2 f2)
  have g1: "first_at ''<Location>'' ''</Location><Location>x'' 11" by code_simp
  have g2: "first_at ''</Location>'' ''</Location><Location>x'' 0" by code_simp
  have g3: "(0::nat) < 11 + 10" by simp
  have 1: "upload_media (upload_world ''<Error><Code>AccessDenied</Code></Error>'') authed_poster
      [] (JStr ''http://h/a.jpg'') = (JNull, upload_history (upload_world
      ''<Error><Code>AccessDenied</Code></Error>'') authed_headers ''http://h/a.jpg'' (JStr
      ''//bucket.s3/amazon'') [(JStr ''a'', JStr ''1'')] ''bytes'')"
    using upload_location_between_tags [where w = "upload_world
        ''<Error><Code>AccessDenied</Code></Error>''" and p = authed_poster and tr = "[]"
        and u = "''http://h/a.jpg''" and hdrs = authed_headers and action = "JStr
            ''//bucket.s3/amazon''"
        and upload_data = "[(JStr ''a'', JStr ''1'')]" and content = "''bytes''"
        and upload_body = "''<Error><Code>AccessDenied</Code></Error>''"] demo_upload_answered [of
            "''<Error><Code>AccessDenied</Code></Error>''"] n
    by simp
  have 2: "upload_media (upload_world ''<a><Location>u</Location><Location>v</Location></a>'')
      authed_poster [] (JStr ''http://h/a.jpg'') = (JStr ''u'', upload_history (upload_world
      ''<a><Location>u</Location><Location>v</Location></a>'') authed_headers ''http://h/a.jpg''
      (JStr ''//bucket.s3/amazon'') [(JStr ''a'', JStr ''1'')] ''bytes'')"
    using upload_location_between_tags [where w = "upload_world
        ''<a><Location>u</Location><Location>v</Location></a>''" and p = authed_poster and tr =
        "[]"
        and u = "''http://h/a.jpg''" and hdrs = authed_headers and action = "JStr
            ''//bucket.s3/amazon''"
        and upload_data = "[(JStr ''a'', JStr ''1'')]" and content = "''bytes''"
        and upload_body = "''<a><Location>u</Location><Location>v</Location></a>''" and pre =
            "''<a>''" and m = "''u''"
        and r = "''<Location>v</Location></a>''" ]
      demo_upload_answered [of "''<a><Location>u</Location><Location>v</Location></a>''"] d h2 h3
    by (unfold append_Nil) blast
  have 3: "upload_media (upload_world ''</Location><Location>x'') authed_poster [] (JStr
      ''http://h/a.jpg'') = (JStr [], upload_history (upload_world ''</Location><Location>x'')
      authed_headers ''http://h/a.jpg'' (JStr ''//bucket.s3/amazon'') [(JStr ''a'', JStr ''1'')]
      ''bytes'')"
    using upload_location_between_tags [where w = "upload_world ''</Location><Location>x''" and p
        = authed_poster and tr = "[]"
        and u = "''http://h/a.jpg''" and hdrs = authed_headers and action = "JStr
            ''//bucket.s3/amazon''"
        and upload_data = "[(JStr ''a'', JStr ''1'')]" and content = "''bytes''"
        and upload_body = "''</Location><Location>x''" and i = 11 and j = 0]
      demo_upload_answered [of "''</Location><Location>x''"] g1 g2 g3
    by (unfold append_Nil) blast
  have 4: "upload_media (upload_world
      ''<PostResponse><Location>https://cdn/x.jpg</Location></PostResponse>'') authed_poster []
      (JStr ''http://h/a.jpg'') = (JStr ''https://cdn/x.jpg'', upload_history (upload_world
      ''<PostResponse><Location>https://cdn/x.jpg</Location></PostResponse>'') authed_headers
      ''http://h/a.jpg'' (JStr ''//bucket.s3/amazon'') [(JStr ''a'', JStr ''1'')] ''bytes'')"
    using upload_location_between_tags [where w = "upload_world
        ''<PostResponse><Location>https://cdn/x.jpg</Location></PostResponse>''" and p =
        authed_poster and tr = "[]"
        and u = "''http://h/a.jpg''" and hdrs = authed_headers and action = "JStr
            ''//bucket.s3/amazon''"
        and upload_data = "[(JStr ''a'', JStr ''1'')]" and content = "''bytes''"
        and upload_body =
            "''<PostResponse><Location>https://cdn/x.jpg</Location></PostResponse>''"]
            demo_upload_answered [of
            "''<PostResponse><Location>https://cdn/x.jpg</Location></PostResponse>''"]
    by simp
  from demo_upload_answered [of "''<Error><Code>AccessDenied</Code></Error>''"] n 1 f1 f2 2 g1 g2
      3 4 show ?thesis by blast
qed

text \<open>
  The claim as stated, for every upload response body, fails on a body whose first
  \<^verbatim>\<open></Location>\<close> comes before its first
      \<^verbatim>\<open><Location>\<close>: the body holds
  \<^verbatim>\<open><Location>cdef</Location>\<close>, and the text between the first closing tag
      and the
  first opening tag is \<^verbatim>\<open>b\<close>, yet the upload returns the empty string.
\<close>

theorem closing_tag_first_counterexample:
  "''a</Location>b<Location>cdef</Location>'' = ''a'' @ ''</Location>'' @ ''b'' @ ''<Location>'' @
      ''cdef'' @ ''</Location>'' \<and>
   first_at ''<Location>'' ''a</Location>b<Location>cdef</Location>'' 13 \<and>
   first_at ''</Location>'' ''a</Location>b<Location>cdef</Location>'' 1 \<and>
   upload_media (upload_world ''a</Location>b<Location>cdef</Location>'') authed_poster [] (JStr
       ''http://h/a.jpg'') = (JStr [], upload_history (upload_world
       ''a</Location>b<Location>cdef</Location>'') authed_headers ''http://h/a.jpg'' (JStr
       ''//bucket.s3/amazon'') [(JStr ''a'', JStr ''1'')] ''bytes'')"
proof -
  have "extract_location ''a</Location>b<Location>cdef</Location>'' = JStr []" by code_simp
  moreover have "first_at ''<Location>'' ''a</Location>b<Location>cdef</Location>'' 13" by
      code_simp
  moreover have "first_at ''</Location>'' ''a</Location>b<Location>cdef</Location>'' 1" by
      code_simp
  ultimately show ?thesis
    by (simp add: upload_media_answered [OF demo_upload_answered])
qed

text \<open>
  Claim C9, as the code has it. When \<^verbatim>\<open>_upload_media\<close> reaches its location
      step and the
  body of the upload response holds \<^verbatim>\<open><Location>\<close> (first at the end of
      \<open>pre\<close>, followed
  by \<open>r\<close>) and no \<^verbatim>\<open></Location>\<close>: the search for the closing
      tag gives -1 and the
  step does not fail; the upload returns \<open>r\<close> without its last character, that is the
      body
  from just after the opening tag up to, and not including, its last character. When that
  string is not empty \<^verbatim>\<open>post_media\<close> submits it as the
      \<^verbatim>\<open>url\<close> of the post; when it is
  empty (at most one character follows the tag) \<^verbatim>\<open>post_media\<close> returns
      \<^verbatim>\<open>None\<close> after
  the upload and submits nothing.
\<close>

theorem upload_location_without_closing_tag:
  "upload_answered w p tr u hdrs action upload_data content upload_body \<and>
   upload_body = pre @ ''<Location>'' @ r \<and>
   first_at ''<Location>'' upload_body (length pre) \<and>
   \<not> occurs ''</Location>'' upload_body \<longrightarrow>
     py_find upload_body ''</Location>'' = -1 \<and>
     upload_media w p tr (JStr u) = (JStr (butlast r), tr @ upload_history w hdrs u action
         upload_data content) \<and>
     (if butlast r = [] then
        post_media w p tr subreddit title (JStr u) body_text flair_id = (JNull, p, tr @
            upload_history w hdrs u action upload_data content)
      else
        (\<exists>res. post_media w p tr subreddit title (JStr u) body_text flair_id =
           (res, p,
            tr @ upload_history w hdrs u action upload_data content @
            [Sent (submit_request hdrs
               (media_data subreddit title (JStr (butlast r)) (media_kind u) body_text
                   flair_id))])))"
proof
  assume a: "upload_answered w p tr u hdrs action upload_data content upload_body \<and>
   upload_body = pre @ ''<Location>'' @ r \<and>
   first_at ''<Location>'' upload_body (length pre) \<and>
   \<not> occurs ''</Location>'' upload_body"
  then have ua: "upload_answered w p tr u hdrs action upload_data content upload_body"
    by blast
  from a have x: "py_find upload_body ''</Location>'' = -1 \<and>
      extract_location upload_body = JStr (butlast r)"
    by (intro extract_unclosed [of upload_body pre r]) blast+
  from ua have h: "get_headers p = Inr hdrs" by (simp add: upload_answered_def)
  have 1: "upload_media w p tr (JStr u) = (JStr (butlast r), tr @ upload_history w hdrs u action
      upload_data content)"
    using x by (simp add: upload_media_answered [OF ua])
  have 2: "if butlast r = [] then
        post_media w p tr subreddit title (JStr u) body_text flair_id = (JNull, p, tr @
            upload_history w hdrs u action upload_data content)
      else
        (\<exists>res. post_media w p tr subreddit title (JStr u) body_text flair_id =
           (res, p,
            tr @ upload_history w hdrs u action upload_data content @
            [Sent (submit_request hdrs
               (media_data subreddit title (JStr (butlast r)) (media_kind u) body_text
                   flair_id))]))"
    using x submit_with_headers [OF h, of w "tr @ upload_history w hdrs u action upload_data
        content"
        "media_data subreddit title (JStr (butlast r)) (media_kind u) body_text flair_id"]
    by (simp add: post_media_answered [OF ua])
  from x 1 2 show "py_find upload_body ''</Location>'' = -1 \<and>
     upload_media w p tr (JStr u) = (JStr (butlast r), tr @ upload_history w hdrs u action
         upload_data content) \<and>
     (if butlast r = [] then
        post_media w p tr subreddit title (JStr u) body_text flair_id = (JNull, p, tr @
            upload_history w hdrs u action upload_data content)
      else
        (\<exists>res. post_media w p tr subreddit title (JStr u) body_text flair_id =
           (res, p,
            tr @ upload_history w hdrs u action upload_data content @
            [Sent (submit_request hdrs
               (media_data subreddit title (JStr (butlast r)) (media_kind u) body_text
                   flair_id))])))"
    by blast
qed

theorem upload_location_without_closing_tag_witness:
  "first_at ''<Location>'' ''<r><Location>https://cdn/x.jpg</Loc'' 3 \<and>
   \<not> occurs ''</Location>'' ''<r><Location>https://cdn/x.jpg</Loc'' \<and>
   upload_media (upload_world ''<r><Location>https://cdn/x.jpg</Loc'') authed_poster [] (JStr
       ''http://h/a.jpg'') = (JStr ''https://cdn/x.jpg</Lo'', upload_history (upload_world
       ''<r><Location>https://cdn/x.jpg</Loc'') authed_headers ''http://h/a.jpg'' (JStr
       ''//bucket.s3/amazon'') [(JStr ''a'', JStr ''1'')] ''bytes'') \<and>
   (\<exists>res. post_media (upload_world ''<r><Location>https://cdn/x.jpg</Loc'') authed_poster
       [] (JStr ''test'') (JStr ''T'') (JStr ''http://h/a.jpg'') JNull JNull =
      (res, authed_poster,
       upload_history (upload_world ''<r><Location>https://cdn/x.jpg</Loc'') authed_headers
           ''http://h/a.jpg'' (JStr ''//bucket.s3/amazon'') [(JStr ''a'', JStr ''1'')] ''bytes'' @
       [Sent (submit_request authed_headers
          (media_data (JStr ''test'') (JStr ''T'') (JStr ''https://cdn/x.jpg</Lo'')
             ''image'' JNull JNull))]))"
proof -
  have f: "first_at ''<Location>'' ''<r><Location>https://cdn/x.jpg</Loc'' 3" by code_simp
  have n: "\<not> occurs ''</Location>'' ''<r><Location>https://cdn/x.jpg</Loc''" by code_simp
  have l: "length ''<r>'' = 3" by simp
  have d: "''<r><Location>https://cdn/x.jpg</Loc'' = ''<r>'' @ ''<Location>'' @
      ''https://cdn/x.jpg</Loc''" by simp
  have h2: "first_at ''<Location>'' ''<r><Location>https://cdn/x.jpg</Loc'' (length ''<r>'')" by
      (simp only: l f)
  have k: "media_kind ''http://h/a.jpg'' = ''image''" by code_simp
  have h: "upload_answered (upload_world ''<r><Location>https://cdn/x.jpg</Loc'') authed_poster []
      ''http://h/a.jpg'' authed_headers
       (JStr ''//bucket.s3/amazon'') [(JStr ''a'', JStr ''1'')] ''bytes''
           ''<r><Location>https://cdn/x.jpg</Loc'' \<and>
     ''<r><Location>https://cdn/x.jpg</Loc'' = ''<r>'' @ ''<Location>'' @
         ''https://cdn/x.jpg</Loc'' \<and>
     first_at ''<Location>'' ''<r><Location>https://cdn/x.jpg</Loc'' (length ''<r>'') \<and>
     \<not> occurs ''</Location>'' ''<r><Location>https://cdn/x.jpg</Loc''"
    using demo_upload_answered [of "''<r><Location>https://cdn/x.jpg</Loc''"] d h2 n by (intro
        conjI)
  from upload_location_without_closing_tag [where w = "upload_world
      ''<r><Location>https://cdn/x.jpg</Loc''" and p = authed_poster and tr = "[]"
        and u = "''http://h/a.jpg''" and hdrs = authed_headers and action = "JStr
            ''//bucket.s3/amazon''"
        and upload_data = "[(JStr ''a'', JStr ''1'')]" and content = "''bytes''"
        and upload_body = "''<r><Location>https://cdn/x.jpg</Loc''" and pre = "''<r>''"
        and r = "''https://cdn/x.jpg</Loc''" and subreddit = "JStr ''test''" and title = "JStr
            ''T''"
        and body_text = JNull and flair_id = JNull, THEN mp, OF h]
  have "upload_media (upload_world ''<r><Location>https://cdn/x.jpg</Loc'') authed_poster [] (JStr
      ''http://h/a.jpg'') = (JStr ''https://cdn/x.jpg</Lo'', upload_history (upload_world
      ''<r><Location>https://cdn/x.jpg</Loc'') authed_headers ''http://h/a.jpg'' (JStr
      ''//bucket.s3/amazon'') [(JStr ''a'', JStr ''1'')] ''bytes'') \<and>
   (\<exists>res. post_media (upload_world ''<r><Location>https://cdn/x.jpg</Loc'') authed_poster
       [] (JStr ''test'') (JStr ''T'') (JStr ''http://h/a.jpg'') JNull JNull =
      (res, authed_poster,
       upload_history (upload_world ''<r><Location>https://cdn/x.jpg</Loc'') authed_headers
           ''http://h/a.jpg'' (JStr ''//bucket.s3/amazon'') [(JStr ''a'', JStr ''1'')] ''bytes'' @
       [Sent (submit_request authed_headers
          (media_data (JStr ''test'') (JStr ''T'') (JStr ''https://cdn/x.jpg</Lo'')
             ''image'' JNull JNull))]))"
    by (simp add: k)
  with f n show ?thesis by blast
qed

text \<open>
  The claim as stated, that the truncated string is used as the asset location for every
  such body, fails when one character follows the opening tag: the string is empty, line
  363 takes it as a failed upload, and nothing is submitted.
\<close>

theorem empty_location_counterexample:
  "occurs ''<Location>'' ''<Location>x'' \<and>
   \<not> occurs ''</Location>'' ''<Location>x'' \<and>
   upload_media (upload_world ''<Location>x'') authed_poster [] (JStr ''http://h/a.jpg'') = (JStr
       [], upload_history (upload_world ''<Location>x'') authed_headers ''http://h/a.jpg'' (JStr
       ''//bucket.s3/amazon'') [(JStr ''a'', JStr ''1'')] ''bytes'') \<and>
   post_media (upload_world ''<Location>x'') authed_poster [] (JStr ''test'') (JStr ''T'') (JStr
       ''http://h/a.jpg'') JNull JNull = (JNull, authed_poster, upload_history (upload_world
       ''<Location>x'') authed_headers ''http://h/a.jpg'' (JStr ''//bucket.s3/amazon'') [(JStr
       ''a'', JStr ''1'')] ''bytes'')"
proof -
  have "extract_location ''<Location>x'' = JStr []" by code_simp
  moreover have "occurs ''<Location>'' ''<Location>x''" by code_simp
  moreover have "\<not> occurs ''</Location>'' ''<Location>x''" by code_simp
  ultimately show ?thesis
    by (simp add: upload_media_answered [OF demo_upload_answered]
          post_media_answered [OF demo_upload_answered])
qed

section \<open>The kind of a media post\<close>

lemma py_endswith_iff: "py_endswith s t = (\<exists>p. s = p @ t)"
proof
  assume "py_endswith s t"
  then have "s = take (length s - length t) s @ t"
    by (metis append_take_drop_id py_endswith_def)
  then show "\<exists>p. s = p @ t" ..
next
  assume "\<exists>p. s = p @ t"
  then show "py_endswith s t" by (auto simp: py_endswith_def)
qed

lemma occurs_at_iff: "occurs_at t s i = (\<exists>p r. s = p @ t @ r \<and> length p = i)"
proof
  assume a: "occurs_at t s i"
  have "drop i s = take (length t) (drop i s) @ drop (length t) (drop i s)"
    by (rule append_take_drop_id [symmetric])
  then have "s = take i s @ take (length t) (drop i s) @ drop (length t) (drop i s)"
    by (metis append_take_drop_id)
  with a have "s = take i s @ t @ drop (length t) (drop i s) \<and> length (take i s) = i"
    by (auto simp: occurs_at_def)
  then show "\<exists>p r. s = p @ t @ r \<and> length p = i" by blast
next
  assume "\<exists>p r. s = p @ t @ r \<and> length p = i"
  then show "occurs_at t s i" by (auto simp: occurs_at_def)
qed

lemma py_in_iff_decomp: "py_in t s = (\<exists>p r. s = p @ t @ r)"
  unfolding py_in_occurs occurs_at_iff by blast

lemma lower_suffix: "(\<exists>p. py_lower u = p @ t) = (\<exists>p e. u = p @ e \<and> py_lower e
    = t)"
proof
  assume "\<exists>p. py_lower u = p @ t"
  then obtain p where p: "map lower_char u = p @ t" by (auto simp: py_lower_def)
  then have "u = take (length p) u @ drop (length p) u \<and>
      py_lower (drop (length p) u) = t"
    by (metis append_eq_conv_conj append_take_drop_id drop_map py_lower_def)
  then show "\<exists>p e. u = p @ e \<and> py_lower e = t" by blast
next
  assume "\<exists>p e. u = p @ e \<and> py_lower e = t"
  then show "\<exists>p. py_lower u = p @ t" by (auto simp: py_lower_def)
qed

lemma lower_infix:
  "(\<exists>p r. py_lower u = p @ t @ r) = (\<exists>p m r. u = p @ m @ r \<and> py_lower m = t)"
proof
  assume "\<exists>p r. py_lower u = p @ t @ r"
  then obtain p r where p: "map lower_char u = p @ t @ r" by (auto simp: py_lower_def)
  then obtain a b c where "u = a @ b @ c" "map lower_char b = t"
    by (metis map_eq_append_conv)
  then show "\<exists>p m r. u = p @ m @ r \<and> py_lower m = t" by (auto simp: py_lower_def)
next
  assume "\<exists>p m r. u = p @ m @ r \<and> py_lower m = t"
  then obtain p m r where "u = p @ m @ r" "py_lower m = t" by blast
  then have "py_lower u = py_lower p @ t @ py_lower r" by (auto simp: py_lower_def)
  then show "\<exists>p r. py_lower u = p @ t @ r" by blast
qed


text \<open>
  Claim C5, as the code has it. The kind is \<^verbatim>\<open>video\<close> exactly when the URL
      ends with
  \<^verbatim>\<open>.mp4\<close> in any letter case, or contains \<^verbatim>\<open>video\<close>
      in any letter case, and
  \<^verbatim>\<open>image\<close> otherwise; it is the \<^verbatim>\<open>kind\<close> field of
      the form that \<^verbatim>\<open>post_media\<close>
  submits after a successful upload. The only extension the code knows is
      \<^verbatim>\<open>.mp4\<close>.
\<close>

theorem media_kind_detection:
  "media_kind u =
     (if (\<exists>p e. u = p @ e \<and> py_lower e = ''.mp4'') \<or>
         (\<exists>p m r. u = p @ m @ r \<and> py_lower m = ''video'')
      then ''video'' else ''image'') \<and>
   map_of (media_data subreddit title uploaded_url (media_kind u) body_text flair_id) ''kind''
     = Some (JStr (media_kind u)) \<and>
   (upload_media w p tr (JStr u) = (uploaded_url, tr1) \<and> truthy uploaded_url \<and>
    get_headers p = Inr hdrs
      \<longrightarrow> (\<exists>res. media_submit w p tr subreddit title (JStr u) body_text
          flair_id =
            (res, p,
             tr1 @ [Sent (submit_request hdrs
                      (media_data subreddit title uploaded_url (media_kind u)
                         body_text flair_id))])))"
proof (intro conjI impI)
  show "media_kind u =
     (if (\<exists>p e. u = p @ e \<and> py_lower e = ''.mp4'') \<or>
         (\<exists>p m r. u = p @ m @ r \<and> py_lower m = ''video'')
      then ''video'' else ''image'')"
    unfolding media_kind_def Let_def py_endswith_iff py_in_iff_decomp lower_suffix lower_infix
    by simp
next
  show "map_of (media_data subreddit title uploaded_url (media_kind u) body_text flair_id)
      ''kind''
     = Some (JStr (media_kind u))"
    by (simp add: media_data_def)
next
  assume "upload_media w p tr (JStr u) = (uploaded_url, tr1) \<and> truthy uploaded_url \<and>
    get_headers p = Inr hdrs"
  then show "\<exists>res. media_submit w p tr subreddit title (JStr u) body_text flair_id =
            (res, p,
             tr1 @ [Sent (submit_request hdrs
                      (media_data subreddit title uploaded_url (media_kind u)
                         body_text flair_id))])"
    by (auto simp: media_submit_def submit_def send_def split: outcome.splits)
qed


lemma demo_upload:
  "upload_media (media_world lease_reply (text_reply 200 ''bytes'') (text_reply 200
      ''<PostResponse><Location>https://cdn/x.jpg</Location></PostResponse>'')) authed_poster []
      (JStr ''http://h/a.jpg'') =
     (JStr ''https://cdn/x.jpg'', [Sent (lease_request (media_world lease_reply (text_reply 200
         ''bytes'') (text_reply 200
         ''<PostResponse><Location>https://cdn/x.jpg</Location></PostResponse>'')) authed_headers
         ''http://h/a.jpg''), Sent (fetch_request ''http://h/a.jpg''), Sent (upload_request (JStr
         ''//bucket.s3/amazon'') [(JStr ''a'', JStr ''1'')] ''a.jpg'' ''bytes'' ''image/jpeg'')])"
  using demo_lease_args
  by (simp add: upload_media_def upload_step2_def upload_step3_def send_def Let_def
        demo_headers media_world_def lease_request_def fetch_request_def upload_request_def
        text_reply_def demo_lease_reply demo_filename media_mime_type_def py_endswith_def
        demo_upload_data demo_location)

theorem media_kind_detection_witness:
  "media_kind ''http://h/a.jpg'' = ''image'' \<and>
   media_kind ''http://h/Clip.MP4'' = ''video'' \<and>
   media_kind ''http://h/Videos/cat.gif'' = ''video'' \<and>
   upload_media (media_world lease_reply (text_reply 200 ''bytes'') (text_reply 200
       ''<PostResponse><Location>https://cdn/x.jpg</Location></PostResponse>'')) authed_poster []
       (JStr ''http://h/a.jpg'') =
     (JStr ''https://cdn/x.jpg'', [Sent (lease_request (media_world lease_reply (text_reply 200
         ''bytes'') (text_reply 200
         ''<PostResponse><Location>https://cdn/x.jpg</Location></PostResponse>'')) authed_headers
         ''http://h/a.jpg''), Sent (fetch_request ''http://h/a.jpg''), Sent (upload_request (JStr
         ''//bucket.s3/amazon'') [(JStr ''a'', JStr ''1'')] ''a.jpg'' ''bytes'' ''image/jpeg'')])
         \<and>
   (\<exists>res. media_submit (media_world lease_reply (text_reply 200 ''bytes'') (text_reply 200
       ''<PostResponse><Location>https://cdn/x.jpg</Location></PostResponse>'')) authed_poster []
       (JStr ''test'') (JStr ''T'') (JStr ''http://h/a.jpg'') JNull JNull =
      (res, authed_poster,
       [Sent (lease_request (media_world lease_reply (text_reply 200 ''bytes'') (text_reply 200
           ''<PostResponse><Location>https://cdn/x.jpg</Location></PostResponse>''))
           authed_headers ''http://h/a.jpg''), Sent (fetch_request ''http://h/a.jpg''), Sent
           (upload_request (JStr ''//bucket.s3/amazon'') [(JStr ''a'', JStr ''1'')] ''a.jpg''
           ''bytes'' ''image/jpeg'')] @
       [Sent (submit_request authed_headers
          (media_data (JStr ''test'') (JStr ''T'') (JStr ''https://cdn/x.jpg'') ''image''
             JNull JNull))]))"
proof -
  have k1: "media_kind ''http://h/a.jpg'' = ''image''" by code_simp
  have k2: "media_kind ''http://h/Clip.MP4'' = ''video''" by code_simp
  have k3: "media_kind ''http://h/Videos/cat.gif'' = ''video''" by code_simp
  have t: "truthy (JStr ''https://cdn/x.jpg'')" by simp
  from demo_upload t demo_headers
    media_kind_detection [where u = "''http://h/a.jpg''" and w = "media_world lease_reply
        (text_reply 200 ''bytes'') (text_reply 200
        ''<PostResponse><Location>https://cdn/x.jpg</Location></PostResponse>'')" and p =
        authed_poster and tr = "[]"
      and uploaded_url = "JStr ''https://cdn/x.jpg''" and ?tr1.0 = "[Sent (lease_request
          (media_world lease_reply (text_reply 200 ''bytes'') (text_reply 200
          ''<PostResponse><Location>https://cdn/x.jpg</Location></PostResponse>'')) authed_headers
          ''http://h/a.jpg''), Sent (fetch_request ''http://h/a.jpg''), Sent (upload_request (JStr
          ''//bucket.s3/amazon'') [(JStr ''a'', JStr ''1'')] ''a.jpg'' ''bytes'' ''image/jpeg'')]"
      and hdrs = authed_headers and subreddit = "JStr ''test''" and title = "JStr ''T''"
      and body_text = JNull and flair_id = JNull]
  have "\<exists>res. media_submit (media_world lease_reply (text_reply 200 ''bytes'') (text_reply
      200 ''<PostResponse><Location>https://cdn/x.jpg</Location></PostResponse>'')) authed_poster
      [] (JStr ''test'') (JStr ''T'') (JStr ''http://h/a.jpg'') JNull JNull =
      (res, authed_poster,
       [Sent (lease_request (media_world lease_reply (text_reply 200 ''bytes'') (text_reply 200
           ''<PostResponse><Location>https://cdn/x.jpg</Location></PostResponse>''))
           authed_headers ''http://h/a.jpg''), Sent (fetch_request ''http://h/a.jpg''), Sent
           (upload_request (JStr ''//bucket.s3/amazon'') [(JStr ''a'', JStr ''1'')] ''a.jpg''
           ''bytes'' ''image/jpeg'')] @
       [Sent (submit_request authed_headers
          (media_data (JStr ''test'') (JStr ''T'') (JStr ''https://cdn/x.jpg'')
             (media_kind ''http://h/a.jpg'') JNull JNull))])"
    by blast
  with k1 k2 k3 demo_upload show ?thesis by simp
qed

text \<open>
  The claim as stated, that a URL ending with a video file extension is submitted as
  \<^verbatim>\<open>video\<close>, fails for an extension other than
      \<^verbatim>\<open>.mp4\<close>: a \<^verbatim>\<open>.mov\<close> URL is submitted
  as \<^verbatim>\<open>image\<close>.
\<close>

theorem mov_url_counterexample:
  "py_endswith ''http://h/clip.mov'' ''.mov'' \<and>
   media_kind ''http://h/clip.mov'' = ''image''"
  by code_simp

section \<open>The handler\<close>

lemma publish_inferred:
  "\<not> truthy post_type \<Longrightarrow>
   publish w p tr (detect_post_type post_type url media_url) subreddit title body_text
     url media_url flair_id =
   (if truthy media_url then post_media w p tr subreddit title media_url body_text flair_id
    else if truthy url then post_link w p tr subreddit title url body_text flair_id
    else post_text w p tr subreddit title body_text flair_id)"
  by (simp add: publish_def detect_post_type_def)

lemma read_submit_truthy:
  "truthy (read_submit_response r) \<Longrightarrow> \<exists>i n l. make_reply
      (read_submit_response r) = Success i n l"
  by (auto simp: read_submit_response_def make_reply_def split: if_splits option.splits
      json.splits)

lemma submit_truthy:
  "truthy (fst (submit w p tr d)) \<Longrightarrow> \<exists>i n l. make_reply (fst (submit w p tr
      d)) = Success i n l"
  by (auto simp: submit_def send_def read_submit_truthy simp del: truthy.simps
           split: sum.splits outcome.splits)
     (simp_all add: read_submit_truthy)

lemma post_text_truthy:
  "truthy (fst (post_text w p tr s t x f)) \<Longrightarrow>
   \<exists>i n l. make_reply (fst (post_text w p tr s t x f)) = Success i n l"
  by (auto simp: post_text_def submit_truthy split: if_splits prod.splits)

lemma make_reply_status: "reply_status (make_reply result) \<noteq> 400"
  by (simp add: make_reply_def split: json.splits)

lemma post_text_publishes:
  "truthy (access_token p) \<Longrightarrow> get_headers p = Inr hdrs \<Longrightarrow>
   snd (snd (post_text w p tr s t x f)) = tr @ [Sent (submit_request hdrs (text_data s t x f))]"
  by (auto simp: post_text_def submit_def send_def split: outcome.splits)


lemma handle_post_dispatch:
  assumes "truthy (dict_get kvs ''title'' JNull)"
    and "resolve_subreddit (dict_get kvs ''subreddit'' JNull) (cfg_file a) = (Inr subreddit, cf)"
  shows "handle_post w a p (Some (JObj kvs)) =
     (case publish w p (trace a)
             (detect_post_type (dict_get kvs ''post_type'' JNull) (dict_get kvs ''url'' JNull)
                (dict_get kvs ''media_url'' JNull))
             subreddit (dict_get kvs ''title'' JNull) (dict_get kvs ''text'' (JStr []))
             (dict_get kvs ''url'' JNull) (dict_get kvs ''media_url'' JNull)
             (dict_get kvs ''flair_id'' JNull) of
        (result, p1, tr1) \<Rightarrow>
          (make_reply result, a\<lparr>the_poster := Some p1, cfg_file := cf, trace :=
              tr1\<rparr>))"
proof -
  from assms(1) have "kvs \<noteq> []" by (auto simp: dict_get_def)
  with assms show ?thesis by (simp add: handle_post_def Let_def)
qed

lemma publish_mismatch:
  assumes "(post_type = JStr ''media'' \<and> \<not> truthy media_url) \<or>
           (post_type = JStr ''link'' \<and> \<not> truthy url)"
  shows "publish w p tr (detect_post_type post_type url media_url) subreddit title body_text
           url media_url flair_id =
         post_text w p tr subreddit title body_text flair_id"
  using assms by (auto simp: publish_def detect_post_type_def)

text \<open>
  Claim C10. With a poster at hand, a title, and a subreddit resolved: a request whose
  \<^verbatim>\<open>post_type\<close> is \<^verbatim>\<open>media\<close> but has no
      \<^verbatim>\<open>media_url\<close>, or whose \<^verbatim>\<open>post_type\<close> is
  \<^verbatim>\<open>link\<close> but has no \<^verbatim>\<open>url\<close>, is not rejected. The
      handler does exactly what it does
  for a text post: it calls \<^verbatim>\<open>post_text\<close> with the request's title and text
      and replies
  from its result, so the reply never has status 400, it is the success reply whenever
  \<^verbatim>\<open>post_text\<close> returns a truthy result, and with a token at hand the one
      request sent
  is the submission of kind \<^verbatim>\<open>self\<close> carrying that title and text.
\<close>

theorem mismatched_type_posts_text:
  "the_poster a = Some p \<and> truthy (dict_get kvs ''title'' JNull) \<and>
   resolve_subreddit (dict_get kvs ''subreddit'' JNull) (cfg_file a) = (Inr subreddit, cf) \<and>
   ((dict_get kvs ''post_type'' JNull = JStr ''media'' \<and> map_of kvs ''media_url'' = None)
       \<or>
    (dict_get kvs ''post_type'' JNull = JStr ''link'' \<and> map_of kvs ''url'' = None))
   \<longrightarrow>
     post_to_reddit w a (Some (JObj kvs)) =
       (case post_text w p (trace a) subreddit (dict_get kvs ''title'' JNull)
               (dict_get kvs ''text'' (JStr [])) (dict_get kvs ''flair_id'' JNull) of
          (result, p1, tr1) \<Rightarrow>
            (make_reply result, a\<lparr>the_poster := Some p1, cfg_file := cf, trace :=
                tr1\<rparr>)) \<and>
     reply_status (fst (post_to_reddit w a (Some (JObj kvs)))) \<noteq> 400 \<and>
     (truthy (fst (post_text w p (trace a) subreddit (dict_get kvs ''title'' JNull)
               (dict_get kvs ''text'' (JStr [])) (dict_get kvs ''flair_id'' JNull)))
        \<longrightarrow> (\<exists>i n l. fst (post_to_reddit w a (Some (JObj kvs))) = Success i
            n l)) \<and>
     (truthy (access_token p) \<and> get_headers p = Inr hdrs
        \<longrightarrow> trace (snd (post_to_reddit w a (Some (JObj kvs)))) =
              trace a @
              [Sent (submit_request hdrs
                 (text_data subreddit (dict_get kvs ''title'' JNull)
                    (dict_get kvs ''text'' (JStr [])) (dict_get kvs ''flair_id'' JNull)))]) \<and>
     map_of (text_data subreddit (dict_get kvs ''title'' JNull)
               (dict_get kvs ''text'' (JStr [])) (dict_get kvs ''flair_id'' JNull)) ''kind''
        = Some (JStr ''self'') \<and>
     map_of (text_data subreddit (dict_get kvs ''title'' JNull)
               (dict_get kvs ''text'' (JStr [])) (dict_get kvs ''flair_id'' JNull)) ''title''
        = Some (dict_get kvs ''title'' JNull) \<and>
     map_of (text_data subreddit (dict_get kvs ''title'' JNull)
               (dict_get kvs ''text'' (JStr [])) (dict_get kvs ''flair_id'' JNull)) ''text''
        = Some (dict_get kvs ''text'' (JStr []))"
proof
  assume a: "the_poster a = Some p \<and> truthy (dict_get kvs ''title'' JNull) \<and>
   resolve_subreddit (dict_get kvs ''subreddit'' JNull) (cfg_file a) = (Inr subreddit, cf) \<and>
   ((dict_get kvs ''post_type'' JNull = JStr ''media'' \<and> map_of kvs ''media_url'' = None)
       \<or>
    (dict_get kvs ''post_type'' JNull = JStr ''link'' \<and> map_of kvs ''url'' = None))"
  let ?title = "dict_get kvs ''title'' JNull"
  let ?text = "dict_get kvs ''text'' (JStr [])"
  let ?flair = "dict_get kvs ''flair_id'' JNull"
  let ?pt = "post_text w p (trace a) subreddit ?title ?text ?flair"
  from a have m: "(dict_get kvs ''post_type'' JNull = JStr ''media'' \<and>
        \<not> truthy (dict_get kvs ''media_url'' JNull)) \<or>
      (dict_get kvs ''post_type'' JNull = JStr ''link'' \<and>
        \<not> truthy (dict_get kvs ''url'' JNull))"
    by (auto simp: dict_get_def)
  from a have t: "truthy ?title"
    and s: "resolve_subreddit (dict_get kvs ''subreddit'' JNull) (cfg_file a) = (Inr subreddit,
        cf)"
    and po: "the_poster a = Some p"
    by blast+
  have e: "post_to_reddit w a (Some (JObj kvs)) =
       (case ?pt of
          (result, p1, tr1) \<Rightarrow>
            (make_reply result, a\<lparr>the_poster := Some p1, cfg_file := cf, trace :=
                tr1\<rparr>))"
    using po by (simp add: post_to_reddit_def handle_post_dispatch [OF t s] publish_mismatch [OF
        m])
  obtain result p1 tr1 where r: "?pt = (result, p1, tr1)" by (cases ?pt) auto
  have st: "reply_status (fst (post_to_reddit w a (Some (JObj kvs)))) \<noteq> 400"
    by (simp add: e r make_reply_status)
  have su: "truthy (fst ?pt) \<longrightarrow> (\<exists>i n l. fst (post_to_reddit w a (Some
      (JObj kvs))) = Success i n l)"
    using post_text_truthy [of w p "trace a" subreddit ?title ?text ?flair]
    by (simp add: e r)
  have tr: "truthy (access_token p) \<and> get_headers p = Inr hdrs
        \<longrightarrow> trace (snd (post_to_reddit w a (Some (JObj kvs)))) =
              trace a @ [Sent (submit_request hdrs (text_data subreddit ?title ?text ?flair))]"
    using post_text_publishes [of p hdrs w "trace a" subreddit ?title ?text ?flair]
    by (simp add: e r)
  have k: "map_of (text_data subreddit ?title ?text ?flair) ''kind'' = Some (JStr ''self'')"
    "map_of (text_data subreddit ?title ?text ?flair) ''title'' = Some ?title"
    "map_of (text_data subreddit ?title ?text ?flair) ''text'' = Some ?text"
    by (simp_all add: text_data_def)
  from e st su tr k show "post_to_reddit w a (Some (JObj kvs)) =
       (case ?pt of
          (result, p1, tr1) \<Rightarrow>
            (make_reply result, a\<lparr>the_poster := Some p1, cfg_file := cf, trace :=
                tr1\<rparr>)) \<and>
     reply_status (fst (post_to_reddit w a (Some (JObj kvs)))) \<noteq> 400 \<and>
     (truthy (fst ?pt)
        \<longrightarrow> (\<exists>i n l. fst (post_to_reddit w a (Some (JObj kvs))) = Success i
            n l)) \<and>
     (truthy (access_token p) \<and> get_headers p = Inr hdrs
        \<longrightarrow> trace (snd (post_to_reddit w a (Some (JObj kvs)))) =
              trace a @
              [Sent (submit_request hdrs (text_data subreddit ?title ?text ?flair))]) \<and>
     map_of (text_data subreddit ?title ?text ?flair) ''kind'' = Some (JStr ''self'') \<and>
     map_of (text_data subreddit ?title ?text ?flair) ''title'' = Some ?title \<and>
     map_of (text_data subreddit ?title ?text ?flair) ''text'' = Some ?text"
    by blast
qed


lemma demo_token: "truthy (access_token authed_poster)"
  by (simp add: authed_poster_def)

lemma demo_post_text:
  "post_text (constant_world submit_ok_reply) authed_poster []
     (JStr ''test'') (JStr ''T'') (JStr ''hi'') JNull =
   (JObj [(''json'',
               JObj [(''data'',
                      JObj [(''id'', JStr ''abc''), (''name'', JStr ''t3_abc''),
                            (''permalink'', JStr ''/r/test/abc'')])])],
    authed_poster,
    [Sent (submit_request authed_headers
        (text_data (JStr ''test'') (JStr ''T'') (JStr ''hi'') JNull))])"
  by (simp add: post_text_def submit_def demo_headers send_def constant_world_def
        submit_ok_reply_def json_reply_def read_submit_response_def dict_get_def
        demo_token)

theorem mismatched_type_posts_text_witness:
  "dict_get [(''title'', JStr ''T''), (''text'', JStr ''hi''), (''subreddit'', JStr ''test''),
      (''post_type'', JStr ''media'')] ''post_type'' JNull = JStr ''media'' \<and>
   map_of [(''title'', JStr ''T''), (''text'', JStr ''hi''), (''subreddit'', JStr ''test''),
       (''post_type'', JStr ''media'')] ''media_url'' = None \<and>
   fst (post_to_reddit (constant_world submit_ok_reply) demo_app (Some (JObj [(''title'', JStr
       ''T''), (''text'', JStr ''hi''), (''subreddit'', JStr ''test''), (''post_type'', JStr
       ''media'')]))) =
     Success (JStr ''abc'') (JStr ''t3_abc'') (JStr ''/r/test/abc'') \<and>
   trace (snd (post_to_reddit (constant_world submit_ok_reply) demo_app (Some (JObj [(''title'',
       JStr ''T''), (''text'', JStr ''hi''), (''subreddit'', JStr ''test''), (''post_type'', JStr
       ''media'')])))) =
     [Sent (submit_request authed_headers
        (text_data (JStr ''test'') (JStr ''T'') (JStr ''hi'') JNull))] \<and>
   dict_get [(''title'', JStr ''T''), (''text'', JStr ''hi''), (''subreddit'', JStr ''test''),
       (''post_type'', JStr ''link'')] ''post_type'' JNull = JStr ''link'' \<and>
   map_of [(''title'', JStr ''T''), (''text'', JStr ''hi''), (''subreddit'', JStr ''test''),
       (''post_type'', JStr ''link'')] ''url'' = None \<and>
   fst (post_to_reddit (constant_world submit_ok_reply) demo_app (Some (JObj [(''title'', JStr
       ''T''), (''text'', JStr ''hi''), (''subreddit'', JStr ''test''), (''post_type'', JStr
       ''link'')]))) =
     Success (JStr ''abc'') (JStr ''t3_abc'') (JStr ''/r/test/abc'') \<and>
   trace (snd (post_to_reddit (constant_world submit_ok_reply) demo_app (Some (JObj [(''title'',
       JStr ''T''), (''text'', JStr ''hi''), (''subreddit'', JStr ''test''), (''post_type'', JStr
       ''link'')])))) =
     [Sent (submit_request authed_headers
        (text_data (JStr ''test'') (JStr ''T'') (JStr ''hi'') JNull))]"
proof -
  have h1: "the_poster demo_app = Some authed_poster \<and>
    truthy (dict_get [(''title'', JStr ''T''), (''text'', JStr ''hi''), (''subreddit'', JStr
        ''test''), (''post_type'', JStr ''media'')] ''title'' JNull) \<and>
    resolve_subreddit (dict_get [(''title'', JStr ''T''), (''text'', JStr ''hi''), (''subreddit'',
        JStr ''test''), (''post_type'', JStr ''media'')] ''subreddit'' JNull) (cfg_file demo_app)
        =
      (Inr (JStr ''test''), Absent) \<and>
    ((dict_get [(''title'', JStr ''T''), (''text'', JStr ''hi''), (''subreddit'', JStr ''test''),
        (''post_type'', JStr ''media'')] ''post_type'' JNull = JStr ''media'' \<and> map_of
        [(''title'', JStr ''T''), (''text'', JStr ''hi''), (''subreddit'', JStr ''test''),
        (''post_type'', JStr ''media'')] ''media_url'' = None) \<or>
     (dict_get [(''title'', JStr ''T''), (''text'', JStr ''hi''), (''subreddit'', JStr ''test''),
         (''post_type'', JStr ''media'')] ''post_type'' JNull = JStr ''link'' \<and> map_of
         [(''title'', JStr ''T''), (''text'', JStr ''hi''), (''subreddit'', JStr ''test''),
         (''post_type'', JStr ''media'')] ''url'' = None))"
    by (simp add: demo_app_def dict_get_def resolve_subreddit_def)
  have h2: "the_poster demo_app = Some authed_poster \<and>
    truthy (dict_get [(''title'', JStr ''T''), (''text'', JStr ''hi''), (''subreddit'', JStr
        ''test''), (''post_type'', JStr ''link'')] ''title'' JNull) \<and>
    resolve_subreddit (dict_get [(''title'', JStr ''T''), (''text'', JStr ''hi''), (''subreddit'',
        JStr ''test''), (''post_type'', JStr ''link'')] ''subreddit'' JNull) (cfg_file demo_app) =
      (Inr (JStr ''test''), Absent) \<and>
    ((dict_get [(''title'', JStr ''T''), (''text'', JStr ''hi''), (''subreddit'', JStr ''test''),
        (''post_type'', JStr ''link'')] ''post_type'' JNull = JStr ''media'' \<and> map_of
        [(''title'', JStr ''T''), (''text'', JStr ''hi''), (''subreddit'', JStr ''test''),
        (''post_type'', JStr ''link'')] ''media_url'' = None) \<or>
     (dict_get [(''title'', JStr ''T''), (''text'', JStr ''hi''), (''subreddit'', JStr ''test''),
         (''post_type'', JStr ''link'')] ''post_type'' JNull = JStr ''link'' \<and> map_of
         [(''title'', JStr ''T''), (''text'', JStr ''hi''), (''subreddit'', JStr ''test''),
         (''post_type'', JStr ''link'')] ''url'' = None))"
    by (simp add: demo_app_def dict_get_def resolve_subreddit_def)
  have tr: "trace demo_app = []" by (simp add: demo_app_def)
  have 1: "fst (post_to_reddit (constant_world submit_ok_reply) demo_app (Some (JObj [(''title'',
      JStr ''T''), (''text'', JStr ''hi''), (''subreddit'', JStr ''test''), (''post_type'', JStr
      ''media'')]))) =
     Success (JStr ''abc'') (JStr ''t3_abc'') (JStr ''/r/test/abc'') \<and>
   trace (snd (post_to_reddit (constant_world submit_ok_reply) demo_app (Some (JObj [(''title'',
       JStr ''T''), (''text'', JStr ''hi''), (''subreddit'', JStr ''test''), (''post_type'', JStr
       ''media'')])))) =
     [Sent (submit_request authed_headers
        (text_data (JStr ''test'') (JStr ''T'') (JStr ''hi'') JNull))]"
    using mismatched_type_posts_text [where a = demo_app and p = authed_poster
        and kvs = "[(''title'', JStr ''T''), (''text'', JStr ''hi''), (''subreddit'', JStr
            ''test''), (''post_type'', JStr ''media'')]" and subreddit = "JStr ''test''" and cf =
            Absent
        and w = "constant_world submit_ok_reply", THEN mp, OF h1]
    by (simp add: tr dict_get_def demo_post_text make_reply_def)
  have 2: "fst (post_to_reddit (constant_world submit_ok_reply) demo_app (Some (JObj [(''title'',
      JStr ''T''), (''text'', JStr ''hi''), (''subreddit'', JStr ''test''), (''post_type'', JStr
      ''link'')]))) =
     Success (JStr ''abc'') (JStr ''t3_abc'') (JStr ''/r/test/abc'') \<and>
   trace (snd (post_to_reddit (constant_world submit_ok_reply) demo_app (Some (JObj [(''title'',
       JStr ''T''), (''text'', JStr ''hi''), (''subreddit'', JStr ''test''), (''post_type'', JStr
       ''link'')])))) =
     [Sent (submit_request authed_headers
        (text_data (JStr ''test'') (JStr ''T'') (JStr ''hi'') JNull))]"
    using mismatched_type_posts_text [where a = demo_app and p = authed_poster
        and kvs = "[(''title'', JStr ''T''), (''text'', JStr ''hi''), (''subreddit'', JStr
            ''test''), (''post_type'', JStr ''link'')]" and subreddit = "JStr ''test''" and cf =
            Absent
        and w = "constant_world submit_ok_reply", THEN mp, OF h2]
    by (simp add: tr dict_get_def demo_post_text make_reply_def)
  have c1: "dict_get [(''title'', JStr ''T''), (''text'', JStr ''hi''), (''subreddit'', JStr
      ''test''), (''post_type'', JStr ''media'')] ''post_type'' JNull = JStr ''media''"
    "map_of [(''title'', JStr ''T''), (''text'', JStr ''hi''), (''subreddit'', JStr ''test''),
        (''post_type'', JStr ''media'')] ''media_url'' = None"
    by (simp_all add: dict_get_def)
  have c2: "dict_get [(''title'', JStr ''T''), (''text'', JStr ''hi''), (''subreddit'', JStr
      ''test''), (''post_type'', JStr ''link'')] ''post_type'' JNull = JStr ''link''"
    "map_of [(''title'', JStr ''T''), (''text'', JStr ''hi''), (''subreddit'', JStr ''test''),
        (''post_type'', JStr ''link'')] ''url'' = None"
    by (simp_all add: dict_get_def)
  from c1 c2 1 2 show ?thesis by blast
qed

section \<open>The inferred post type\<close>

text \<open>
  Claim C6. In the \<^verbatim>\<open>/post\<close> handler, with a poster at hand, a title, and a
      subreddit
  resolved, for a request body that gives no \<^verbatim>\<open>post_type\<close> (the key is
      absent, or its
  value is falsy), where a field is set when it holds a truthy value (a non-empty string),
  which is how lines 536-542 read it: with \<^verbatim>\<open>media_url\<close> set the inferred
      type is
  \<^verbatim>\<open>media\<close>, whatever else the body holds, and the handler replies from
  \<^verbatim>\<open>post_media\<close>; with \<^verbatim>\<open>url\<close> set and no
      \<^verbatim>\<open>media_url\<close> it is \<^verbatim>\<open>link\<close> and the
  handler replies from \<^verbatim>\<open>post_link\<close>; with neither it is
      \<^verbatim>\<open>self\<close> and the handler
  replies from \<^verbatim>\<open>post_text\<close>.
\<close>

theorem handler_infers_post_type:
  "the_poster a = Some p \<and> truthy (dict_get kvs ''title'' JNull) \<and>
   resolve_subreddit (dict_get kvs ''subreddit'' JNull) (cfg_file a) = (Inr subreddit, cf) \<and>
   \<not> truthy (dict_get kvs ''post_type'' JNull)
   \<longrightarrow>
     (truthy (dict_get kvs ''media_url'' JNull) \<longrightarrow>
        detect_post_type (dict_get kvs ''post_type'' JNull) (dict_get kvs ''url'' JNull)
          (dict_get kvs ''media_url'' JNull) = JStr ''media'' \<and>
        post_to_reddit w a (Some (JObj kvs)) =
          (case post_media w p (trace a) subreddit (dict_get kvs ''title'' JNull)
                  (dict_get kvs ''media_url'' JNull) (dict_get kvs ''text'' (JStr []))
                  (dict_get kvs ''flair_id'' JNull) of
             (result, p1, tr1) \<Rightarrow>
               (make_reply result,
                a\<lparr>the_poster := Some p1, cfg_file := cf, trace := tr1\<rparr>))) \<and>
     (truthy (dict_get kvs ''url'' JNull) \<and> \<not> truthy (dict_get kvs ''media_url'' JNull)
         \<longrightarrow>
        detect_post_type (dict_get kvs ''post_type'' JNull) (dict_get kvs ''url'' JNull)
          (dict_get kvs ''media_url'' JNull) = JStr ''link'' \<and>
        post_to_reddit w a (Some (JObj kvs)) =
          (case post_link w p (trace a) subreddit (dict_get kvs ''title'' JNull)
                  (dict_get kvs ''url'' JNull) (dict_get kvs ''text'' (JStr []))
                  (dict_get kvs ''flair_id'' JNull) of
             (result, p1, tr1) \<Rightarrow>
               (make_reply result,
                a\<lparr>the_poster := Some p1, cfg_file := cf, trace := tr1\<rparr>))) \<and>
     (\<not> truthy (dict_get kvs ''url'' JNull) \<and> \<not> truthy (dict_get kvs ''media_url''
         JNull) \<longrightarrow>
        detect_post_type (dict_get kvs ''post_type'' JNull) (dict_get kvs ''url'' JNull)
          (dict_get kvs ''media_url'' JNull) = JStr ''self'' \<and>
        post_to_reddit w a (Some (JObj kvs)) =
          (case post_text w p (trace a) subreddit (dict_get kvs ''title'' JNull)
                  (dict_get kvs ''text'' (JStr [])) (dict_get kvs ''flair_id'' JNull) of
             (result, p1, tr1) \<Rightarrow>
               (make_reply result,
                a\<lparr>the_poster := Some p1, cfg_file := cf, trace := tr1\<rparr>)))"
proof
  assume a: "the_poster a = Some p \<and> truthy (dict_get kvs ''title'' JNull) \<and>
   resolve_subreddit (dict_get kvs ''subreddit'' JNull) (cfg_file a) = (Inr subreddit, cf) \<and>
   \<not> truthy (dict_get kvs ''post_type'' JNull)"
  then have t: "truthy (dict_get kvs ''title'' JNull)"
    and s: "resolve_subreddit (dict_get kvs ''subreddit'' JNull) (cfg_file a) = (Inr subreddit,
        cf)"
    and po: "the_poster a = Some p"
    and n: "\<not> truthy (dict_get kvs ''post_type'' JNull)"
    by blast+
  have e: "post_to_reddit w a (Some (JObj kvs)) =
     (case (if truthy (dict_get kvs ''media_url'' JNull) then
              post_media w p (trace a) subreddit (dict_get kvs ''title'' JNull)
                (dict_get kvs ''media_url'' JNull) (dict_get kvs ''text'' (JStr []))
                (dict_get kvs ''flair_id'' JNull)
            else if truthy (dict_get kvs ''url'' JNull) then
              post_link w p (trace a) subreddit (dict_get kvs ''title'' JNull)
                (dict_get kvs ''url'' JNull) (dict_get kvs ''text'' (JStr []))
                (dict_get kvs ''flair_id'' JNull)
            else
              post_text w p (trace a) subreddit (dict_get kvs ''title'' JNull)
                (dict_get kvs ''text'' (JStr [])) (dict_get kvs ''flair_id'' JNull)) of
        (result, p1, tr1) \<Rightarrow>
          (make_reply result, a\<lparr>the_poster := Some p1, cfg_file := cf, trace :=
              tr1\<rparr>))"
    using po by (simp add: post_to_reddit_def handle_post_dispatch [OF t s] publish_inferred [OF
        n])
  from n have d: "detect_post_type (dict_get kvs ''post_type'' JNull) (dict_get kvs ''url'' JNull)
          (dict_get kvs ''media_url'' JNull) =
        (if truthy (dict_get kvs ''media_url'' JNull) then JStr ''media''
         else if truthy (dict_get kvs ''url'' JNull) then JStr ''link'' else JStr ''self'')"
    by (simp add: detect_post_type_def)
  show "(truthy (dict_get kvs ''media_url'' JNull) \<longrightarrow>
        detect_post_type (dict_get kvs ''post_type'' JNull) (dict_get kvs ''url'' JNull)
          (dict_get kvs ''media_url'' JNull) = JStr ''media'' \<and>
        post_to_reddit w a (Some (JObj kvs)) =
          (case post_media w p (trace a) subreddit (dict_get kvs ''title'' JNull)
                  (dict_get kvs ''media_url'' JNull) (dict_get kvs ''text'' (JStr []))
                  (dict_get kvs ''flair_id'' JNull) of
             (result, p1, tr1) \<Rightarrow>
               (make_reply result,
                a\<lparr>the_poster := Some p1, cfg_file := cf, trace := tr1\<rparr>))) \<and>
     (truthy (dict_get kvs ''url'' JNull) \<and> \<not> truthy (dict_get kvs ''media_url'' JNull)
         \<longrightarrow>
        detect_post_type (dict_get kvs ''post_type'' JNull) (dict_get kvs ''url'' JNull)
          (dict_get kvs ''media_url'' JNull) = JStr ''link'' \<and>
        post_to_reddit w a (Some (JObj kvs)) =
          (case post_link w p (trace a) subreddit (dict_get kvs ''title'' JNull)
                  (dict_get kvs ''url'' JNull) (dict_get kvs ''text'' (JStr []))
                  (dict_get kvs ''flair_id'' JNull) of
             (result, p1, tr1) \<Rightarrow>
               (make_reply result,
                a\<lparr>the_poster := Some p1, cfg_file := cf, trace := tr1\<rparr>))) \<and>
     (\<not> truthy (dict_get kvs ''url'' JNull) \<and> \<not> truthy (dict_get kvs ''media_url''
         JNull) \<longrightarrow>
        detect_post_type (dict_get kvs ''post_type'' JNull) (dict_get kvs ''url'' JNull)
          (dict_get kvs ''media_url'' JNull) = JStr ''self'' \<and>
        post_to_reddit w a (Some (JObj kvs)) =
          (case post_text w p (trace a) subreddit (dict_get kvs ''title'' JNull)
                  (dict_get kvs ''text'' (JStr [])) (dict_get kvs ''flair_id'' JNull) of
             (result, p1, tr1) \<Rightarrow>
               (make_reply result,
                a\<lparr>the_poster := Some p1, cfg_file := cf, trace := tr1\<rparr>)))"
    by (simp add: e d)
qed


lemma demo_post_link:
  "post_link (constant_world submit_ok_reply) authed_poster []
     (JStr ''test'') (JStr ''T'') (JStr ''http://h/'') (JStr []) JNull =
   (JObj [(''json'',
               JObj [(''data'',
                      JObj [(''id'', JStr ''abc''), (''name'', JStr ''t3_abc''),
                            (''permalink'', JStr ''/r/test/abc'')])])],
    authed_poster,
    [Sent (submit_request authed_headers
        (link_data (JStr ''test'') (JStr ''T'') (JStr ''http://h/'') (JStr []) JNull))])"
  by (simp add: post_link_def submit_def demo_headers send_def constant_world_def
        submit_ok_reply_def json_reply_def read_submit_response_def dict_get_def
        demo_token)

lemma demo_post_media:
  "post_media (upload_world
      ''<PostResponse><Location>https://cdn/x.jpg</Location></PostResponse>'') authed_poster []
     (JStr ''test'') (JStr ''T'') (JStr ''http://h/a.jpg'') (JStr []) JNull =
   (JObj [(''args'',
               JObj [(''action'', JStr ''//bucket.s3/amazon''),
                     (''fields'',
                      JArr [JObj [(''name'', JStr ''a''), (''value'', JStr ''1'')]])])],
    authed_poster,
    upload_history (upload_world
        ''<PostResponse><Location>https://cdn/x.jpg</Location></PostResponse>'') authed_headers
        ''http://h/a.jpg'' (JStr ''//bucket.s3/amazon'') [(JStr ''a'', JStr ''1'')] ''bytes'' @
    [Sent (submit_request authed_headers
        (media_data (JStr ''test'') (JStr ''T'') (JStr ''https://cdn/x.jpg'') ''image''
           (JStr []) JNull))])"
proof -
  have k: "media_kind ''http://h/a.jpg'' = ''image''" by code_simp
  have sub: "submit (upload_world b) authed_poster tr d =
     (JObj [(''args'',
               JObj [(''action'', JStr ''//bucket.s3/amazon''),
                     (''fields'',
                      JArr [JObj [(''name'', JStr ''a''), (''value'', JStr ''1'')]])])],
      authed_poster, tr @ [Sent (submit_request authed_headers d)])" for b tr d
    by (simp add: submit_def demo_headers send_def upload_world_def media_world_def
          submit_request_def demo_lease_reply read_submit_response_def dict_get_def)
  show ?thesis
    by (simp add: post_media_answered [OF demo_upload_answered] demo_location k sub)
qed

theorem handler_infers_post_type_witness:
  "truthy (dict_get [(''title'', JStr ''T''), (''media_url'', JStr ''http://h/a.jpg''), (''url'',
      JStr ''http://h/''), (''subreddit'', JStr ''test'')] ''media_url'' JNull) \<and>
   fst (post_to_reddit (upload_world
       ''<PostResponse><Location>https://cdn/x.jpg</Location></PostResponse>'') demo_app (Some
       (JObj [(''title'', JStr ''T''), (''media_url'', JStr ''http://h/a.jpg''), (''url'', JStr
       ''http://h/''), (''subreddit'', JStr ''test'')]))) = Success JNull JNull (JStr []) \<and>
   trace (snd (post_to_reddit (upload_world
       ''<PostResponse><Location>https://cdn/x.jpg</Location></PostResponse>'') demo_app (Some
       (JObj [(''title'', JStr ''T''), (''media_url'', JStr ''http://h/a.jpg''), (''url'', JStr
       ''http://h/''), (''subreddit'', JStr ''test'')])))) =
     upload_history (upload_world
         ''<PostResponse><Location>https://cdn/x.jpg</Location></PostResponse>'') authed_headers
         ''http://h/a.jpg'' (JStr ''//bucket.s3/amazon'') [(JStr ''a'', JStr ''1'')] ''bytes'' @
     [Sent (submit_request authed_headers
        (media_data (JStr ''test'') (JStr ''T'') (JStr ''https://cdn/x.jpg'') ''image''
           (JStr []) JNull))] \<and>
   truthy (dict_get [(''title'', JStr ''T''), (''url'', JStr ''http://h/''), (''media_url'', JStr
       []), (''subreddit'', JStr ''test'')] ''url'' JNull) \<and>
   \<not> truthy (dict_get [(''title'', JStr ''T''), (''url'', JStr ''http://h/''),
       (''media_url'', JStr []), (''subreddit'', JStr ''test'')] ''media_url'' JNull) \<and>
   fst (post_to_reddit (constant_world submit_ok_reply) demo_app (Some (JObj [(''title'', JStr
       ''T''), (''url'', JStr ''http://h/''), (''media_url'', JStr []), (''subreddit'', JStr
       ''test'')]))) =
     Success (JStr ''abc'') (JStr ''t3_abc'') (JStr ''/r/test/abc'') \<and>
   trace (snd (post_to_reddit (constant_world submit_ok_reply) demo_app (Some (JObj [(''title'',
       JStr ''T''), (''url'', JStr ''http://h/''), (''media_url'', JStr []), (''subreddit'', JStr
       ''test'')])))) =
     [Sent (submit_request authed_headers
        (link_data (JStr ''test'') (JStr ''T'') (JStr ''http://h/'') (JStr []) JNull))] \<and>
   \<not> truthy (dict_get [(''title'', JStr ''T''), (''text'', JStr ''hi''), (''url'', JNull),
       (''subreddit'', JStr ''test'')] ''url'' JNull) \<and>
   \<not> truthy (dict_get [(''title'', JStr ''T''), (''text'', JStr ''hi''), (''url'', JNull),
       (''subreddit'', JStr ''test'')] ''media_url'' JNull) \<and>
   fst (post_to_reddit (constant_world submit_ok_reply) demo_app (Some (JObj [(''title'', JStr
       ''T''), (''text'', JStr ''hi''), (''url'', JNull), (''subreddit'', JStr ''test'')]))) =
     Success (JStr ''abc'') (JStr ''t3_abc'') (JStr ''/r/test/abc'') \<and>
   trace (snd (post_to_reddit (constant_world submit_ok_reply) demo_app (Some (JObj [(''title'',
       JStr ''T''), (''text'', JStr ''hi''), (''url'', JNull), (''subreddit'', JStr ''test'')]))))
       =
     [Sent (submit_request authed_headers
        (text_data (JStr ''test'') (JStr ''T'') (JStr ''hi'') JNull))]"
proof -
  have h1: "the_poster demo_app = Some authed_poster \<and>
    truthy (dict_get [(''title'', JStr ''T''), (''media_url'', JStr ''http://h/a.jpg''), (''url'',
        JStr ''http://h/''), (''subreddit'', JStr ''test'')] ''title'' JNull) \<and>
    resolve_subreddit (dict_get [(''title'', JStr ''T''), (''media_url'', JStr
        ''http://h/a.jpg''), (''url'', JStr ''http://h/''), (''subreddit'', JStr ''test'')]
        ''subreddit'' JNull) (cfg_file demo_app) =
      (Inr (JStr ''test''), Absent) \<and>
    \<not> truthy (dict_get [(''title'', JStr ''T''), (''media_url'', JStr ''http://h/a.jpg''),
        (''url'', JStr ''http://h/''), (''subreddit'', JStr ''test'')] ''post_type'' JNull)"
    by (simp add: demo_app_def dict_get_def resolve_subreddit_def)
  have h2: "the_poster demo_app = Some authed_poster \<and>
    truthy (dict_get [(''title'', JStr ''T''), (''url'', JStr ''http://h/''), (''media_url'', JStr
        []), (''subreddit'', JStr ''test'')] ''title'' JNull) \<and>
    resolve_subreddit (dict_get [(''title'', JStr ''T''), (''url'', JStr ''http://h/''),
        (''media_url'', JStr []), (''subreddit'', JStr ''test'')] ''subreddit'' JNull) (cfg_file
        demo_app) =
      (Inr (JStr ''test''), Absent) \<and>
    \<not> truthy (dict_get [(''title'', JStr ''T''), (''url'', JStr ''http://h/''),
        (''media_url'', JStr []), (''subreddit'', JStr ''test'')] ''post_type'' JNull)"
    by (simp add: demo_app_def dict_get_def resolve_subreddit_def)
  have h3: "the_poster demo_app = Some authed_poster \<and>
    truthy (dict_get [(''title'', JStr ''T''), (''text'', JStr ''hi''), (''url'', JNull),
        (''subreddit'', JStr ''test'')] ''title'' JNull) \<and>
    resolve_subreddit (dict_get [(''title'', JStr ''T''), (''text'', JStr ''hi''), (''url'',
        JNull), (''subreddit'', JStr ''test'')] ''subreddit'' JNull) (cfg_file demo_app) =
      (Inr (JStr ''test''), Absent) \<and>
    \<not> truthy (dict_get [(''title'', JStr ''T''), (''text'', JStr ''hi''), (''url'', JNull),
        (''subreddit'', JStr ''test'')] ''post_type'' JNull)"
    by (simp add: demo_app_def dict_get_def resolve_subreddit_def)
  have tr: "trace demo_app = []" by (simp add: demo_app_def)
  have t1: "truthy (dict_get [(''title'', JStr ''T''), (''media_url'', JStr ''http://h/a.jpg''),
      (''url'', JStr ''http://h/''), (''subreddit'', JStr ''test'')] ''media_url'' JNull)"
    by (simp add: dict_get_def)
  have t2: "truthy (dict_get [(''title'', JStr ''T''), (''url'', JStr ''http://h/''),
      (''media_url'', JStr []), (''subreddit'', JStr ''test'')] ''url'' JNull)"
    "\<not> truthy (dict_get [(''title'', JStr ''T''), (''url'', JStr ''http://h/''),
        (''media_url'', JStr []), (''subreddit'', JStr ''test'')] ''media_url'' JNull)"
    by (simp_all add: dict_get_def)
  have t3: "\<not> truthy (dict_get [(''title'', JStr ''T''), (''text'', JStr ''hi''), (''url'',
      JNull), (''subreddit'', JStr ''test'')] ''url'' JNull)"
    "\<not> truthy (dict_get [(''title'', JStr ''T''), (''text'', JStr ''hi''), (''url'', JNull),
        (''subreddit'', JStr ''test'')] ''media_url'' JNull)"
    by (simp_all add: dict_get_def)
  have 1: "fst (post_to_reddit (upload_world
      ''<PostResponse><Location>https://cdn/x.jpg</Location></PostResponse>'') demo_app (Some
      (JObj [(''title'', JStr ''T''), (''media_url'', JStr ''http://h/a.jpg''), (''url'', JStr
      ''http://h/''), (''subreddit'', JStr ''test'')]))) = Success JNull JNull (JStr []) \<and>
   trace (snd (post_to_reddit (upload_world
       ''<PostResponse><Location>https://cdn/x.jpg</Location></PostResponse>'') demo_app (Some
       (JObj [(''title'', JStr ''T''), (''media_url'', JStr ''http://h/a.jpg''), (''url'', JStr
       ''http://h/''), (''subreddit'', JStr ''test'')])))) =
     upload_history (upload_world
         ''<PostResponse><Location>https://cdn/x.jpg</Location></PostResponse>'') authed_headers
         ''http://h/a.jpg'' (JStr ''//bucket.s3/amazon'') [(JStr ''a'', JStr ''1'')] ''bytes'' @
     [Sent (submit_request authed_headers
        (media_data (JStr ''test'') (JStr ''T'') (JStr ''https://cdn/x.jpg'') ''image''
           (JStr []) JNull))]"
    using handler_infers_post_type [where a = demo_app and p = authed_poster
        and kvs = "[(''title'', JStr ''T''), (''media_url'', JStr ''http://h/a.jpg''), (''url'',
            JStr ''http://h/''), (''subreddit'', JStr ''test'')]" and subreddit = "JStr ''test''"
            and cf = Absent
        and w = "upload_world
            ''<PostResponse><Location>https://cdn/x.jpg</Location></PostResponse>''", THEN mp, OF
            h1, THEN conjunct1, THEN mp, OF t1]
    by (simp add: tr dict_get_def demo_post_media make_reply_def)
  have 2: "fst (post_to_reddit (constant_world submit_ok_reply) demo_app (Some (JObj [(''title'',
      JStr ''T''), (''url'', JStr ''http://h/''), (''media_url'', JStr []), (''subreddit'', JStr
      ''test'')]))) =
     Success (JStr ''abc'') (JStr ''t3_abc'') (JStr ''/r/test/abc'') \<and>
   trace (snd (post_to_reddit (constant_world submit_ok_reply) demo_app (Some (JObj [(''title'',
       JStr ''T''), (''url'', JStr ''http://h/''), (''media_url'', JStr []), (''subreddit'', JStr
       ''test'')])))) =
     [Sent (submit_request authed_headers
        (link_data (JStr ''test'') (JStr ''T'') (JStr ''http://h/'') (JStr []) JNull))]"
    using t2 handler_infers_post_type [where a = demo_app and p = authed_poster
        and kvs = "[(''title'', JStr ''T''), (''url'', JStr ''http://h/''), (''media_url'', JStr
            []), (''subreddit'', JStr ''test'')]" and subreddit = "JStr ''test''" and cf = Absent
        and w = "constant_world submit_ok_reply", THEN mp, OF h2, THEN conjunct2, THEN conjunct1]
    by (simp add: tr dict_get_def demo_post_link make_reply_def)
  have 3: "fst (post_to_reddit (constant_world submit_ok_reply) demo_app (Some (JObj [(''title'',
      JStr ''T''), (''text'', JStr ''hi''), (''url'', JNull), (''subreddit'', JStr ''test'')]))) =
     Success (JStr ''abc'') (JStr ''t3_abc'') (JStr ''/r/test/abc'') \<and>
   trace (snd (post_to_reddit (constant_world submit_ok_reply) demo_app (Some (JObj [(''title'',
       JStr ''T''), (''text'', JStr ''hi''), (''url'', JNull), (''subreddit'', JStr ''test'')]))))
       =
     [Sent (submit_request authed_headers
        (text_data (JStr ''test'') (JStr ''T'') (JStr ''hi'') JNull))]"
    using t3 handler_infers_post_type [where a = demo_app and p = authed_poster
        and kvs = "[(''title'', JStr ''T''), (''text'', JStr ''hi''), (''url'', JNull),
            (''subreddit'', JStr ''test'')]" and subreddit = "JStr ''test''" and cf = Absent
        and w = "constant_world submit_ok_reply", THEN mp, OF h3, THEN conjunct2, THEN conjunct2]
    by (simp add: tr dict_get_def demo_post_text make_reply_def)
  from t1 t2 t3 1 2 3 show ?thesis by blast
qed

end
